theory Spec2Isabelle
  imports Main
begin

section \<open>JavaScript strings\<close>

text \<open>
  A JavaScript string is a sequence of UTF-16 code units. The model uses \<^typ>\<open>string\<close>:
  a \<^typ>\<open>char\<close> stands for the code unit of the same number, so the model covers the
  strings whose code units lie in 0..255. Within that range the white space of
  \<^verbatim>\<open>String.prototype.trim\<close> and of the regular expression class \<^verbatim>\<open>\s\<close> is
  TAB, LF, VT, FF, CR, SPACE and NBSP; the line terminators that \<^verbatim>\<open>.\<close> refuses are LF and CR.
\<close>

definition is_ws :: "char \<Rightarrow> bool" where
  "is_ws c = (c = CHR 0x09 \<or> c = CHR 0x0A \<or> c = CHR 0x0B \<or> c = CHR 0x0C \<or> c = CHR 0x0D
              \<or> c = CHR 0x20 \<or> c = CHR 0xA0)"

definition is_line_terminator :: "char \<Rightarrow> bool" where
  "is_line_terminator c = (c = CHR 0x0A \<or> c = CHR 0x0D)"

text \<open>\<^verbatim>\<open>[\w-]\<close>: an ASCII letter, a digit, the underscore or the dash.\<close>

definition is_word :: "char \<Rightarrow> bool" where
  "is_word c = (let n = (of_char c :: nat) in
      (48 \<le> n \<and> n \<le> 57) \<or> (65 \<le> n \<and> n \<le> 90) \<or> (97 \<le> n \<and> n \<le> 122)
      \<or> c = CHR ''_'' \<or> c = CHR ''-'')"

definition trim :: "string \<Rightarrow> string" where
  "trim s = rev (dropWhile is_ws (rev (dropWhile is_ws s)))"

text \<open>\<^verbatim>\<open>!value\<close> on a string that may be undefined: undefined and the empty string are falsy.\<close>

fun truthy :: "string option \<Rightarrow> bool" where
  "truthy None = False"
| "truthy (Some s) = (s \<noteq> [])"

definition startsWith :: "string \<Rightarrow> string \<Rightarrow> bool" where
  "startsWith s p = (take (length p) s = p)"

definition endsWith :: "string \<Rightarrow> string \<Rightarrow> bool" where
  "endsWith s p = (length p \<le> length s \<and> drop (length s - length p) s = p)"

text \<open>The first position at which \<open>pat\<close> occurs, none when it does not occur.\<close>

fun index_of :: "string \<Rightarrow> string \<Rightarrow> nat option" where
  "index_of pat [] = (if pat = [] then Some 0 else None)"
| "index_of pat (c # cs) =
     (if startsWith (c # cs) pat then Some 0 else map_option Suc (index_of pat cs))"

text \<open>\<^verbatim>\<open>s.indexOf(pat, from)\<close>; \<open>None\<close> is the result \<^verbatim>\<open>-1\<close>.\<close>

definition indexOf :: "string \<Rightarrow> string \<Rightarrow> nat \<Rightarrow> nat option" where
  "indexOf s pat from =
     (let k = min from (length s) in map_option (\<lambda>i. i + k) (index_of pat (drop k s)))"

text \<open>\<^verbatim>\<open>s.slice(a, b)\<close> for non-negative \<open>a\<close> and \<open>b\<close>: empty when \<open>b \<le> a\<close>.\<close>

definition slice :: "string \<Rightarrow> nat \<Rightarrow> nat \<Rightarrow> string" where
  "slice s a b = take (b - a) (drop a s)"

text \<open>\<^verbatim>\<open>s.split(d)\<close> for a separator of one code unit; the empty string gives one empty part.\<close>

fun split_on :: "char \<Rightarrow> string \<Rightarrow> string list" where
  "split_on d [] = [[]]"
| "split_on d (c # cs) =
     (if c = d then [] # split_on d cs
      else (case split_on d cs of [] \<Rightarrow> [[c]] | w # ws \<Rightarrow> (c # w) # ws))"

text \<open>The decimal rendering of a list index inside a template literal.\<close>

fun decimal :: "nat \<Rightarrow> string" where
  "decimal n = (if n < 10 then [''0123456789'' ! n]
                else decimal (n div 10) @ [''0123456789'' ! (n mod 10)])"

declare decimal.simps [simp del]

text \<open>\<^verbatim>\<open>toLowerCase\<close> on the modelled range: A..Z, and the Latin-1 capitals except the
  multiplication sign.\<close>

definition lower_char :: "char \<Rightarrow> char" where
  "lower_char c = (let n = (of_char c :: nat) in
      if (65 \<le> n \<and> n \<le> 90) \<or> (192 \<le> n \<and> n \<le> 222 \<and> n \<noteq> 215) then char_of (n + 32) else c)"

definition toLowerCase :: "string \<Rightarrow> string" where
  "toLowerCase s = map lower_char s"

text \<open>What the C library sees of a string handed to it: the code units before the first NUL.\<close>

definition c_string :: "string \<Rightarrow> string" where
  "c_string s = takeWhile (\<lambda>c. c \<noteq> CHR 0x00) s"

section \<open>Data model\<close>

text \<open>
  \<^verbatim>\<open>SkillInstallSpec\<close>. The field \<open>kind\<close> is the string the running code switches on; the
  declared type allows \<^verbatim>\<open>"brew" | "node" | "go" | "uv"\<close>. An optional field is an option.
\<close>

record SkillInstallSpec =
  spec_id :: "string option"
  kind :: string
  label :: "string option"
  bins :: "string list option"
  formula :: "string option"
  package :: "string option"
  module :: "string option"

record Requires =
  req_bins :: "string list"
  req_env :: "string list"
  req_config :: "string list"

text \<open>\<^verbatim>\<open>ClawdisSkillMetadata\<close>; \<open>emoji\<close> and \<open>homepage\<close> are never read by the code modelled here.\<close>

record ClawdisSkillMetadata =
  always :: "bool option"
  skillKey :: "string option"
  primaryEnv :: "string option"
  emoji :: "string option"
  homepage :: "string option"
  requires :: "Requires option"
  install :: "SkillInstallSpec list option"

text \<open>\<^verbatim>\<open>Skill\<close> comes from the external loader; the code reads \<open>name\<close> and \<open>filePath\<close>.\<close>

record Skill =
  name :: string
  filePath :: string
  description :: string
  source :: string

record SkillEntry =
  skill :: Skill
  frontmatter :: "string \<rightharpoonup> string"
  clawdis :: "ClawdisSkillMetadata option"

record SkillsInstallPreferences =
  preferBrew :: bool
  nodeManager :: string

text \<open>
  \<^verbatim>\<open>ClawdisConfig\<close> and \<^verbatim>\<open>SkillConfig\<close> are declared in \<^verbatim>\<open>config/config.js\<close>. The
  model keeps the fields this code reads through their declared types (\<open>skills\<close>,
  \<open>skillsInstall\<close>) and, for the dotted-path lookup that walks the configuration as an
  untyped object, the configuration as a tree of values (\<open>tree\<close>). An object is the list of
  its own properties; an env table is listed in the order of \<^verbatim>\<open>Object.entries\<close>.
  Besides the values of a configuration, a property read can reach a function
  (\<open>JFunction\<close>) and the objects \<^verbatim>\<open>Object.prototype\<close> and \<^verbatim>\<open>Array.prototype\<close>.
\<close>

datatype jsvalue =
    JUndefined
  | JNull
  | JBool bool
  | JNum int
  | JStr string
  | JArr "jsvalue list"
  | JObj "(string \<times> jsvalue) list"
  | JFunction
  | JObjectPrototype
  | JArrayPrototype

record SkillConfig =
  enabled :: "bool option"
  apiKey :: "string option"
  env :: "(string \<times> string) list option"

record SkillsInstallConfig =
  cfg_preferBrew :: "bool option"
  cfg_nodeManager :: "string option"

record ClawdisConfig =
  skills :: "(string \<rightharpoonup> SkillConfig) option"
  skillsInstall :: "SkillsInstallConfig option"
  tree :: jsvalue

record SnapshotSkill =
  snap_name :: string
  snap_primaryEnv :: "string option"

record SkillSnapshot =
  prompt :: string
  snap_skills :: "SnapshotSkill list"

text \<open>
  The host gives what the code reads from the platform: \<^verbatim>\<open>path.delimiter\<close>, whether
  \<^verbatim>\<open>fs.accessSync(path.join(dir, bin), X_OK)\<close> succeeds, \<^verbatim>\<open>fs.readFileSync\<close>
  (\<open>None\<close> when it throws), and the names of the properties of \<^verbatim>\<open>Array.prototype\<close>
  in the running engine, \<^verbatim>\<open>length\<close> apart: its methods and \<^verbatim>\<open>constructor\<close>, all of
  them functions.
\<close>

record Host =
  delimiter :: char
  accessX :: "string \<Rightarrow> string \<Rightarrow> bool"
  readFile :: "string \<rightharpoonup> string"
  arrayMethods :: "string list"

text \<open>The result of the external process runner \<^verbatim>\<open>runCommandWithTimeout\<close>.\<close>

record ProcResult =
  pcode :: "int option"
  pstdout :: string
  pstderr :: string

record SkillInstallRequest =
  workspaceDir :: string
  skillName :: string
  installId :: string
  timeoutMs :: "int option"
  config :: "ClawdisConfig option"

record SkillInstallResult =
  ok :: bool
  message :: string
  stdout :: string
  stderr :: string
  code :: "int option"

record Command =
  argv :: "string list option"
  error :: "string option"

section \<open>Property reads and the process environment\<close>

text \<open>
  Reading a property of a plain object goes through the prototype chain: a name that is no
  own property of the object is looked up in \<^verbatim>\<open>Object.prototype\<close>. These are the names
  of the properties of \<^verbatim>\<open>Object.prototype\<close>; each of them is a function, but
  \<^verbatim>\<open>__proto__\<close>, which reads the prototype itself.
\<close>

definition object_prototype_names :: "string list" where
  "object_prototype_names =
     [''constructor'', ''__defineGetter__'', ''__defineSetter__'', ''hasOwnProperty'',
      ''__lookupGetter__'', ''__lookupSetter__'', ''isPrototypeOf'', ''propertyIsEnumerable'',
      ''toString'', ''valueOf'', ''__proto__'', ''toLocaleString'']"

text \<open>
  What reading a name gives in a table of strings (an env table, \<^verbatim>\<open>process.env\<close>):
  undefined, a string, or a member inherited from \<^verbatim>\<open>Object.prototype\<close>, which is truthy.
\<close>

datatype member = Undefined | Str string | Inherited

fun member_truthy :: "member \<Rightarrow> bool" where
  "member_truthy Undefined = False"
| "member_truthy (Str s) = (s \<noteq> [])"
| "member_truthy Inherited = True"

definition inherited_member :: "string \<Rightarrow> member" where
  "inherited_member n = (if n \<in> set object_prototype_names then Inherited else Undefined)"

text \<open>\<^verbatim>\<open>table[name]\<close> on an env table, given as the list of its own entries.\<close>

definition table_get :: "(string \<times> string) list \<Rightarrow> string \<Rightarrow> member" where
  "table_get table n = (case map_of table n of Some v \<Rightarrow> Str v | None \<Rightarrow> inherited_member n)"

text \<open>
  \<^verbatim>\<open>process.env\<close> on a POSIX host. The environment maps the names of the variables that
  are set to their values. Node hands names and values to \<^verbatim>\<open>getenv\<close>, \<^verbatim>\<open>setenv\<close> and
  \<^verbatim>\<open>unsetenv\<close> as C strings, so both are cut at the first NUL. A name that is empty or
  holds \<^verbatim>\<open>=\<close> names no variable: reading it finds nothing, and writing or deleting it
  is refused by the C library and dropped without an error. A read that finds no variable
  falls through to the prototype chain.
\<close>

type_synonym environment = "string \<rightharpoonup> string"

definition valid_name :: "string \<Rightarrow> bool" where
  "valid_name n = (n \<noteq> [] \<and> CHR ''='' \<notin> set n)"

definition getenv :: "environment \<Rightarrow> string \<Rightarrow> string option" where
  "getenv e n = (if valid_name (c_string n) then e (c_string n) else None)"

definition setenv :: "environment \<Rightarrow> string \<Rightarrow> string \<Rightarrow> environment" where
  "setenv e n v = (if valid_name (c_string n) then e(c_string n \<mapsto> c_string v) else e)"

definition unsetenv :: "environment \<Rightarrow> string \<Rightarrow> environment" where
  "unsetenv e n = (if valid_name (c_string n) then e(c_string n := None) else e)"

text \<open>\<^verbatim>\<open>process.env[name]\<close>.\<close>

definition process_env_get :: "environment \<Rightarrow> string \<Rightarrow> member" where
  "process_env_get e n = (case getenv e n of Some v \<Rightarrow> Str v | None \<Rightarrow> inherited_member n)"

section \<open>Install dispatcher: installer ids\<close>

definition kinds :: "string list" where
  "kinds = [''brew'', ''node'', ''go'', ''uv'']"

definition resolveInstallId :: "SkillInstallSpec \<Rightarrow> nat \<Rightarrow> string" where
  "resolveInstallId spec index =
     trim (case spec_id spec of Some i \<Rightarrow> i | None \<Rightarrow> kind spec @ ''-'' @ decimal index)"

text \<open>The loop over \<^verbatim>\<open>specs.entries()\<close>, started at \<open>index\<close>: the first match is returned.\<close>

fun findInstallSpec_from :: "nat \<Rightarrow> SkillInstallSpec list \<Rightarrow> string \<Rightarrow> SkillInstallSpec option" where
  "findInstallSpec_from index [] wanted = None"
| "findInstallSpec_from index (spec # specs) wanted =
     (if resolveInstallId spec index = wanted then Some spec
      else findInstallSpec_from (Suc index) specs wanted)"

definition install_specs :: "SkillEntry \<Rightarrow> SkillInstallSpec list" where
  "install_specs entry =
     (case clawdis entry of None \<Rightarrow> []
      | Some m \<Rightarrow> (case install m of None \<Rightarrow> [] | Some specs \<Rightarrow> specs))"

definition findInstallSpec :: "SkillEntry \<Rightarrow> string \<Rightarrow> SkillInstallSpec option" where
  "findInstallSpec entry wanted = findInstallSpec_from 0 (install_specs entry) wanted"

section \<open>Install dispatcher: command synthesis and execution\<close>

definition buildNodeInstallCommand :: "string \<Rightarrow> SkillsInstallPreferences \<Rightarrow> string list" where
  "buildNodeInstallCommand packageName prefs =
     (if nodeManager prefs = ''pnpm'' then [''pnpm'', ''add'', ''-g'', packageName]
      else if nodeManager prefs = ''yarn'' then [''yarn'', ''global'', ''add'', packageName]
      else [''npm'', ''install'', ''-g'', packageName])"

definition synthesis_error :: "string \<Rightarrow> Command" where
  "synthesis_error msg = \<lparr>argv = None, error = Some msg\<rparr>"

definition buildInstallCommand :: "SkillInstallSpec \<Rightarrow> SkillsInstallPreferences \<Rightarrow> Command" where
  "buildInstallCommand spec prefs =
     (if kind spec = ''brew'' then
        (case formula spec of
           None \<Rightarrow> synthesis_error ''missing brew formula''
         | Some f \<Rightarrow> if f = [] then synthesis_error ''missing brew formula''
                     else \<lparr>argv = Some [''brew'', ''install'', f], error = None\<rparr>)
      else if kind spec = ''node'' then
        (case package spec of
           None \<Rightarrow> synthesis_error ''missing node package''
         | Some p \<Rightarrow> if p = [] then synthesis_error ''missing node package''
                     else \<lparr>argv = Some (buildNodeInstallCommand p prefs), error = None\<rparr>)
      else if kind spec = ''go'' then
        (case module spec of
           None \<Rightarrow> synthesis_error ''missing go module''
         | Some m \<Rightarrow> if m = [] then synthesis_error ''missing go module''
                     else \<lparr>argv = Some [''go'', ''install'', m], error = None\<rparr>)
      else if kind spec = ''uv'' then
        (case package spec of
           None \<Rightarrow> synthesis_error ''missing uv package''
         | Some p \<Rightarrow> if p = [] then synthesis_error ''missing uv package''
                     else \<lparr>argv = Some [''uv'', ''tool'', ''install'', p], error = None\<rparr>)
      else synthesis_error ''unsupported installer'')"

definition resolveSkillsInstallPreferences :: "ClawdisConfig option \<Rightarrow> SkillsInstallPreferences" where
  "resolveSkillsInstallPreferences cfg =
     (let raw = (case cfg of None \<Rightarrow> None | Some c \<Rightarrow> skillsInstall c);
          pb = (case raw of None \<Rightarrow> True
                | Some r \<Rightarrow> (case cfg_preferBrew r of None \<Rightarrow> True | Some b \<Rightarrow> b));
          managerRaw = (case raw of None \<Rightarrow> []
                | Some r \<Rightarrow> (case cfg_nodeManager r of None \<Rightarrow> [] | Some m \<Rightarrow> trim m));
          manager = toLowerCase managerRaw
      in \<lparr>preferBrew = pb,
          nodeManager = (if manager = ''pnpm'' \<or> manager = ''yarn'' \<or> manager = ''npm''
                         then manager else ''npm'')\<rparr>)"

text \<open>\<^verbatim>\<open>hasBinary\<close>: some non-empty directory of \<^verbatim>\<open>PATH\<close> holds an executable of that name.\<close>

definition hasBinary :: "Host \<Rightarrow> environment \<Rightarrow> string \<Rightarrow> bool" where
  "hasBinary h e bin =
     (let pathEnv = (case e ''PATH'' of None \<Rightarrow> [] | Some p \<Rightarrow> p);
          parts = filter (\<lambda>p. p \<noteq> []) (split_on (delimiter h) pathEnv)
      in list_ex (\<lambda>part. accessX h part bin) parts)"

definition failure :: "string \<Rightarrow> SkillInstallResult" where
  "failure msg = \<lparr>ok = False, message = msg, stdout = [], stderr = [], code = None\<rparr>"

definition clampTimeout :: "int option \<Rightarrow> int" where
  "clampTimeout t = min (max (case t of None \<Rightarrow> 300000 | Some ms \<Rightarrow> ms) 1000) 900000"

text \<open>
  The process runner is a function from the command line and the timeout to the result of
  the process. \<open>installSkill\<close> returns its result together with the commands it has handed
  to the runner, in order. Its entries are those \<^verbatim>\<open>loadWorkspaceSkillEntries\<close> gives for
  the request's workspace.
\<close>

type_synonym runner = "string list \<Rightarrow> int \<Rightarrow> ProcResult"
type_synonym spawned = "(string list \<times> int) list"

text \<open>The tail of \<open>installSkill\<close>: run the synthesized command and report.\<close>

definition runInstallCommand ::
  "runner \<Rightarrow> int \<Rightarrow> Command \<Rightarrow> spawned \<Rightarrow> SkillInstallResult \<times> spawned" where
  "runInstallCommand run t command before =
     (case argv command of
        None \<Rightarrow> (failure ''invalid install command'', before)
      | Some args \<Rightarrow>
          if args = [] then (failure ''invalid install command'', before)
          else (let result = run args t; success = (pcode result = Some 0)
                in (\<lparr>ok = success,
                     message = (if success then ''Installed'' else ''Install failed''),
                     stdout = trim (pstdout result),
                     stderr = trim (pstderr result),
                     code = pcode result\<rparr>, before @ [(args, t)])))"

definition installSkill ::
  "Host \<Rightarrow> environment \<Rightarrow> runner \<Rightarrow> SkillEntry list \<Rightarrow> SkillInstallRequest
     \<Rightarrow> SkillInstallResult \<times> spawned" where
  "installSkill h e run entries params =
     (let t = clampTimeout (timeoutMs params) in
      case find (\<lambda>item. name (skill item) = skillName params) entries of
        None \<Rightarrow> (failure (''Skill not found: '' @ skillName params), [])
      | Some entry \<Rightarrow>
         (case findInstallSpec entry (installId params) of
            None \<Rightarrow> (failure (''Installer not found: '' @ installId params), [])
          | Some spec \<Rightarrow>
             (let prefs = resolveSkillsInstallPreferences (config params);
                  command = buildInstallCommand spec prefs
              in if truthy (error command)
                 then (failure (case error command of None \<Rightarrow> [] | Some m \<Rightarrow> m), [])
                 else if kind spec = ''uv'' \<and> \<not> hasBinary h e ''uv'' then
                   (if hasBinary h e ''brew'' then
                      (let brewResult = run [''brew'', ''install'', ''uv''] t
                       in if pcode brewResult \<noteq> Some 0
                          then (\<lparr>ok = False,
                                 message = ''Failed to install uv (brew)'',
                                 stdout = trim (pstdout brewResult),
                                 stderr = trim (pstderr brewResult),
                                 code = pcode brewResult\<rparr>,
                                [([''brew'', ''install'', ''uv''], t)])
                          else runInstallCommand run t command
                                 [([''brew'', ''install'', ''uv''], t)])
                    else (failure ''uv not installed (install via brew)'', []))
                 else runInstallCommand run t command [])))"

section \<open>Metadata parser\<close>

definition stripQuotes :: "string \<Rightarrow> string" where
  "stripQuotes v =
     (if (startsWith v [CHR 0x22] \<and> endsWith v [CHR 0x22])
         \<or> (startsWith v [CHR 0x27] \<and> endsWith v [CHR 0x27])
      then butlast (tl v) else v)"

text \<open>\<^verbatim>\<open>content.replace(/\r\n/g, "\n")\<close> and \<^verbatim>\<open>.replace(/\r/g, "\n")\<close>.\<close>

fun replace_crlf :: "string \<Rightarrow> string" where
  "replace_crlf (c # d # cs) =
     (if c = CHR 0x0D \<and> d = CHR 0x0A then CHR 0x0A # replace_crlf cs
      else c # replace_crlf (d # cs))"
| "replace_crlf cs = cs"

definition replace_cr :: "string \<Rightarrow> string" where
  "replace_cr s = map (\<lambda>c. if c = CHR 0x0D then CHR 0x0A else c) s"

text \<open>
  \<^verbatim>\<open>line.match(/^([\w-]+):\s*(.*)$/)\<close>: the key is the longest run of word characters
  and dashes at the start, it is not empty and a colon follows it; the white space after
  the colon is skipped, and the rest of the line, free of line terminators, is the
  second group. The result is the pair of the two groups.
\<close>

definition match_line :: "string \<Rightarrow> (string \<times> string) option" where
  "match_line line =
     (let k = takeWhile is_word line; rest = dropWhile is_word line in
      if k = [] then None
      else (case rest of
              [] \<Rightarrow> None
            | c # after \<Rightarrow>
                if c \<noteq> CHR '':'' then None
                else (let v = dropWhile is_ws after in
                      if list_ex is_line_terminator v then None else Some (k, v))))"

text \<open>
  \<^verbatim>\<open>frontmatter[key] = value\<close> on a plain object: the assignment to \<^verbatim>\<open>__proto__\<close> with a
  string is the one that creates no property.
\<close>

definition set_property :: "(string \<rightharpoonup> string) \<Rightarrow> string \<Rightarrow> string \<Rightarrow> (string \<rightharpoonup> string)" where
  "set_property fm k v = (if k = ''__proto__'' then fm else fm(k \<mapsto> v))"

definition parse_line :: "(string \<rightharpoonup> string) \<Rightarrow> string \<Rightarrow> (string \<rightharpoonup> string)" where
  "parse_line fm line =
     (case match_line line of
        None \<Rightarrow> fm
      | Some (k, raw) \<Rightarrow>
          (let v = stripQuotes (trim raw) in
           if k = [] \<or> v = [] then fm else set_property fm k v))"

definition parseFrontmatter :: "string \<Rightarrow> (string \<rightharpoonup> string)" where
  "parseFrontmatter content =
     (let normalized = replace_cr (replace_crlf content) in
      if \<not> startsWith normalized ''---'' then Map.empty
      else (case indexOf normalized (CHR 0x0A # ''---'') 3 of
              None \<Rightarrow> Map.empty
            | Some endIndex \<Rightarrow>
                foldl parse_line Map.empty (split_on (CHR 0x0A) (slice normalized 4 endIndex))))"








section \<open>Eligibility filter\<close>

fun isTruthy :: "jsvalue \<Rightarrow> bool" where
  "isTruthy JUndefined = False"
| "isTruthy JNull = False"
| "isTruthy (JBool b) = b"
| "isTruthy (JNum n) = (n \<noteq> 0)"
| "isTruthy (JStr s) = (trim s \<noteq> [])"
| "isTruthy (JArr xs) = True"
| "isTruthy (JObj kvs) = True"
| "isTruthy JFunction = True"
| "isTruthy JObjectPrototype = True"
| "isTruthy JArrayPrototype = True"

definition DEFAULT_CONFIG_VALUES :: "(string \<times> bool) list" where
  "DEFAULT_CONFIG_VALUES = [(''browser.enabled'', True)]"

text \<open>
  The properties of \<^verbatim>\<open>Object.prototype\<close> and of \<^verbatim>\<open>Array.prototype\<close> themselves, and
  what an object or an array inherits from them.
\<close>

definition object_prototype_own :: "string \<Rightarrow> jsvalue" where
  "object_prototype_own part =
     (if part = ''__proto__'' then JNull
      else if part \<in> set object_prototype_names then JFunction else JUndefined)"

definition array_prototype_own :: "Host \<Rightarrow> string \<Rightarrow> jsvalue" where
  "array_prototype_own h part =
     (if part = ''length'' then JNum 0
      else if part = ''__proto__'' then JObjectPrototype
      else if part \<in> set (arrayMethods h) \<or> part \<in> set object_prototype_names then JFunction
      else JUndefined)"

definition object_inherited :: "string \<Rightarrow> jsvalue" where
  "object_inherited part =
     (if part = ''__proto__'' then JObjectPrototype
      else if part \<in> set object_prototype_names then JFunction else JUndefined)"

definition array_inherited :: "Host \<Rightarrow> string \<Rightarrow> jsvalue" where
  "array_inherited h part =
     (if part = ''__proto__'' then JArrayPrototype
      else if part \<in> set (arrayMethods h) \<or> part \<in> set object_prototype_names then JFunction
      else JUndefined)"

text \<open>
  \<^verbatim>\<open>current[part]\<close> on an object or an array: an own property first (for an array its
  elements under their decimal indices, and \<^verbatim>\<open>length\<close>), the prototype chain otherwise.
\<close>

fun get_property :: "Host \<Rightarrow> jsvalue \<Rightarrow> string \<Rightarrow> jsvalue" where
  "get_property h (JObj kvs) part =
     (case map_of kvs part of Some v \<Rightarrow> v | None \<Rightarrow> object_inherited part)"
| "get_property h (JArr xs) part =
     (case find (\<lambda>i. decimal i = part) [0 ..< length xs] of
        Some i \<Rightarrow> xs ! i
      | None \<Rightarrow> if part = ''length'' then JNum (int (length xs)) else array_inherited h part)"
| "get_property h JObjectPrototype part = object_prototype_own part"
| "get_property h JArrayPrototype part = array_prototype_own h part"
| "get_property h v part = JUndefined"

text \<open>\<^verbatim>\<open>typeof current === "object" && current !== null\<close>.\<close>

fun is_object :: "jsvalue \<Rightarrow> bool" where
  "is_object (JObj kvs) = True"
| "is_object (JArr xs) = True"
| "is_object JObjectPrototype = True"
| "is_object JArrayPrototype = True"
| "is_object v = False"

fun walk_path :: "Host \<Rightarrow> jsvalue \<Rightarrow> string list \<Rightarrow> jsvalue" where
  "walk_path h current [] = current"
| "walk_path h current (part # parts) =
     (if \<not> is_object current then JUndefined
      else walk_path h (get_property h current part) parts)"

definition resolveConfigPath :: "Host \<Rightarrow> ClawdisConfig option \<Rightarrow> string \<Rightarrow> jsvalue" where
  "resolveConfigPath h cfg pathStr =
     walk_path h (case cfg of None \<Rightarrow> JUndefined | Some c \<Rightarrow> tree c)
               (filter (\<lambda>p. p \<noteq> []) (split_on (CHR ''.'') pathStr))"

text \<open>
  \<^verbatim>\<open>pathStr in DEFAULT_CONFIG_VALUES\<close> holds for the keys of the table and for the names
  the table inherits.
\<close>

definition isConfigPathTruthy :: "Host \<Rightarrow> ClawdisConfig option \<Rightarrow> string \<Rightarrow> bool" where
  "isConfigPathTruthy h cfg pathStr =
     (let v = resolveConfigPath h cfg pathStr in
      if v = JUndefined
         \<and> (map_of DEFAULT_CONFIG_VALUES pathStr \<noteq> None \<or> pathStr \<in> set object_prototype_names)
      then map_of DEFAULT_CONFIG_VALUES pathStr = Some True
      else isTruthy v)"

text \<open>
  \<^verbatim>\<open>skills[skillKey]\<close>, kept when it is an object. The name \<^verbatim>\<open>__proto__\<close>, when it is no
  own key, reads \<^verbatim>\<open>Object.prototype\<close>: an object with no \<open>enabled\<close>, \<open>apiKey\<close> or \<open>env\<close>.
  The other inherited names read functions, which are not kept.
\<close>

definition resolveSkillConfig :: "ClawdisConfig option \<Rightarrow> string \<Rightarrow> SkillConfig option" where
  "resolveSkillConfig cfg key =
     (case cfg of
        None \<Rightarrow> None
      | Some c \<Rightarrow>
          (case skills c of
             None \<Rightarrow> None
           | Some table \<Rightarrow>
               (case table key of
                  Some sc \<Rightarrow> Some sc
                | None \<Rightarrow> if key = ''__proto__''
                           then Some \<lparr>enabled = None, apiKey = None, env = None\<rparr>
                           else None)))"

definition resolveSkillKey :: "Skill \<Rightarrow> SkillEntry \<Rightarrow> string" where
  "resolveSkillKey s entry =
     (case clawdis entry of
        None \<Rightarrow> name s
      | Some m \<Rightarrow> (case skillKey m of None \<Rightarrow> name s | Some k \<Rightarrow> k))"

definition entry_requires :: "SkillEntry \<Rightarrow> Requires option" where
  "entry_requires entry = (case clawdis entry of None \<Rightarrow> None | Some m \<Rightarrow> requires m)"

definition entry_primaryEnv :: "SkillEntry \<Rightarrow> string option" where
  "entry_primaryEnv entry = (case clawdis entry of None \<Rightarrow> None | Some m \<Rightarrow> primaryEnv m)"

text \<open>\<^verbatim>\<open>skillConfig?.env?.[envName]\<close> and \<^verbatim>\<open>skillConfig?.apiKey\<close>.\<close>

definition config_env_value :: "SkillConfig option \<Rightarrow> string \<Rightarrow> member" where
  "config_env_value sc envName =
     (case sc of
        None \<Rightarrow> Undefined
      | Some c \<Rightarrow> (case env c of None \<Rightarrow> Undefined | Some table \<Rightarrow> table_get table envName))"

definition config_apiKey :: "SkillConfig option \<Rightarrow> string option" where
  "config_apiKey sc = (case sc of None \<Rightarrow> None | Some c \<Rightarrow> apiKey c)"

text \<open>The body of the loop over \<open>requiredEnv\<close>: true when the loop continues.\<close>

definition envRequirementMet ::
  "environment \<Rightarrow> SkillConfig option \<Rightarrow> SkillEntry \<Rightarrow> string \<Rightarrow> bool" where
  "envRequirementMet e sc entry envName =
     (if member_truthy (process_env_get e envName) then True
      else if member_truthy (config_env_value sc envName) then True
      else if truthy (config_apiKey sc) \<and> entry_primaryEnv entry = Some envName then True
      else False)"

definition shouldIncludeSkill ::
  "Host \<Rightarrow> environment \<Rightarrow> SkillEntry \<Rightarrow> ClawdisConfig option \<Rightarrow> bool" where
  "shouldIncludeSkill h e entry cfg =
     (let key = resolveSkillKey (skill entry) entry;
          sc = resolveSkillConfig cfg key
      in if (case sc of None \<Rightarrow> False | Some c \<Rightarrow> enabled c = Some False) then False
         else if (case clawdis entry of None \<Rightarrow> False | Some m \<Rightarrow> always m = Some True) then True
         else (let requiredBins = (case entry_requires entry of None \<Rightarrow> [] | Some r \<Rightarrow> req_bins r);
                   requiredEnv = (case entry_requires entry of None \<Rightarrow> [] | Some r \<Rightarrow> req_env r);
                   requiredConfig = (case entry_requires entry of None \<Rightarrow> [] | Some r \<Rightarrow> req_config r)
               in if \<not> list_all (hasBinary h e) requiredBins then False
                  else if \<not> list_all (envRequirementMet e sc entry) requiredEnv then False
                  else if \<not> list_all (isConfigPathTruthy h cfg) requiredConfig then False
                  else True))"

definition filterSkillEntries ::
  "Host \<Rightarrow> environment \<Rightarrow> SkillEntry list \<Rightarrow> ClawdisConfig option \<Rightarrow> SkillEntry list" where
  "filterSkillEntries h e entries cfg = filter (\<lambda>entry. shouldIncludeSkill h e entry cfg) entries"

section \<open>Environment activator\<close>

text \<open>
  The state of an activation: the process environment and the list \<open>updates\<close> of the
  variables written so far, each with the value read before (\<open>None\<close> for undefined).
  A variable is written only after a falsy read, which gives undefined or the empty
  string: that is what \<open>getenv\<close> gives there.
\<close>

type_synonym updates = "(string \<times> string option) list"

text \<open>The loop over \<^verbatim>\<open>Object.entries(skillConfig.env)\<close>.\<close>

fun apply_env_table :: "(string \<times> string) list \<Rightarrow> environment \<times> updates \<Rightarrow> environment \<times> updates" where
  "apply_env_table [] st = st"
| "apply_env_table ((envKey, envValue) # rest) (e, us) =
     (if envValue = [] \<or> member_truthy (process_env_get e envKey)
      then apply_env_table rest (e, us)
      else apply_env_table rest (setenv e envKey envValue, us @ [(envKey, getenv e envKey)]))"

text \<open>The injection of the credential into the primary variable.\<close>

definition apply_primary ::
  "string option \<Rightarrow> string option \<Rightarrow> environment \<times> updates \<Rightarrow> environment \<times> updates" where
  "apply_primary pe key st =
     (case (pe, key) of
        (Some p, Some k) \<Rightarrow>
          if p \<noteq> [] \<and> k \<noteq> [] \<and> \<not> member_truthy (process_env_get (fst st) p)
          then (setenv (fst st) p k, snd st @ [(p, getenv (fst st) p)])
          else st
      | _ \<Rightarrow> st)"

text \<open>One round of either loop, for the per-skill configuration found and the primary variable.\<close>

definition apply_skill ::
  "SkillConfig option \<Rightarrow> string option \<Rightarrow> environment \<times> updates \<Rightarrow> environment \<times> updates" where
  "apply_skill sc pe st =
     (case sc of
        None \<Rightarrow> st
      | Some c \<Rightarrow>
          apply_primary pe (apiKey c)
            (case env c of None \<Rightarrow> st | Some table \<Rightarrow> apply_env_table table st))"

fun apply_entries ::
  "ClawdisConfig option \<Rightarrow> SkillEntry list \<Rightarrow> environment \<times> updates \<Rightarrow> environment \<times> updates" where
  "apply_entries cfg [] st = st"
| "apply_entries cfg (entry # rest) st =
     apply_entries cfg rest
       (apply_skill (resolveSkillConfig cfg (resolveSkillKey (skill entry) entry))
                    (entry_primaryEnv entry) st)"

fun apply_snapshot_skills ::
  "ClawdisConfig option \<Rightarrow> SnapshotSkill list \<Rightarrow> environment \<times> updates \<Rightarrow> environment \<times> updates" where
  "apply_snapshot_skills cfg [] st = st"
| "apply_snapshot_skills cfg (s # rest) st =
     apply_snapshot_skills cfg rest
       (apply_skill (resolveSkillConfig cfg (snap_name s)) (snap_primaryEnv s) st)"

text \<open>
  \<open>applySkillEnvOverrides\<close> returns the environment it leaves behind and the list of
  updates its closure holds; \<open>revert\<close> is the closure, run on the environment of the
  moment it is called: it goes through the updates in the order they were recorded,
  deleting the variable when the recorded value is undefined and writing the recorded
  value otherwise.
\<close>

definition applySkillEnvOverrides ::
  "SkillEntry list \<Rightarrow> ClawdisConfig option \<Rightarrow> environment \<Rightarrow> environment \<times> updates" where
  "applySkillEnvOverrides entries cfg e = apply_entries cfg entries (e, [])"

definition applySkillEnvOverridesFromSnapshot ::
  "SkillSnapshot option \<Rightarrow> ClawdisConfig option \<Rightarrow> environment \<Rightarrow> environment \<times> updates" where
  "applySkillEnvOverridesFromSnapshot snapshot cfg e =
     (case snapshot of
        None \<Rightarrow> (e, [])
      | Some snap \<Rightarrow> apply_snapshot_skills cfg (snap_skills snap) (e, []))"

fun revert :: "updates \<Rightarrow> environment \<Rightarrow> environment" where
  "revert [] e = e"
| "revert ((k, prev) # rest) e =
     revert rest (case prev of None \<Rightarrow> unsetenv e k | Some v \<Rightarrow> setenv e k v)"

text \<open>\<^verbatim>\<open>buildWorkspaceSkillSnapshot\<close> on given entries; the prompt formatter is external.\<close>

definition buildWorkspaceSkillSnapshot ::
  "(Skill list \<Rightarrow> string) \<Rightarrow> Host \<Rightarrow> environment \<Rightarrow> SkillEntry list \<Rightarrow> ClawdisConfig option
     \<Rightarrow> SkillSnapshot" where
  "buildWorkspaceSkillSnapshot formatSkillsForPrompt h e entries cfg =
     (let eligible = filterSkillEntries h e entries cfg in
      \<lparr>prompt = formatSkillsForPrompt (map skill eligible),
       snap_skills = map (\<lambda>entry. \<lparr>snap_name = name (skill entry),
                                    snap_primaryEnv = entry_primaryEnv entry\<rparr>) eligible\<rparr>)"

section \<open>Source merger\<close>

text \<open>
  \<^verbatim>\<open>Map.prototype.set\<close> on a map kept as the list of its entries in insertion order: a key
  that is present keeps its place and takes the new value, a new key goes to the end.
\<close>

fun map_set :: "(string \<times> Skill) list \<Rightarrow> string \<Rightarrow> Skill \<Rightarrow> (string \<times> Skill) list" where
  "map_set [] k v = [(k, v)]"
| "map_set ((k', v') # m) k v = (if k' = k then (k, v) # m else (k', v') # map_set m k v)"

definition set_all :: "(string \<times> Skill) list \<Rightarrow> Skill list \<Rightarrow> (string \<times> Skill) list" where
  "set_all m ss = foldl (\<lambda>acc s. map_set acc (name s) s) m ss"

definition merge_sources :: "Skill list \<Rightarrow> Skill list \<Rightarrow> Skill list \<Rightarrow> Skill list \<Rightarrow> (string \<times> Skill) list" where
  "merge_sources extraSkills bundledSkills managedSkills workspaceSkills =
     set_all (set_all (set_all (set_all [] extraSkills) bundledSkills) managedSkills) workspaceSkills"

text \<open>
  \<open>loadSkillEntries\<close> from the four lists the external loader has returned. The decoder
  of the capability metadata relies on \<^verbatim>\<open>JSON.parse\<close> and is a parameter.
\<close>

definition loadSkillEntries ::
  "Host \<Rightarrow> ((string \<rightharpoonup> string) \<Rightarrow> ClawdisSkillMetadata option)
     \<Rightarrow> Skill list \<Rightarrow> Skill list \<Rightarrow> Skill list \<Rightarrow> Skill list \<Rightarrow> SkillEntry list" where
  "loadSkillEntries h resolveClawdisMetadata extraSkills bundledSkills managedSkills workspaceSkills =
     map (\<lambda>s. let fm = (case readFile h (filePath s) of
                          None \<Rightarrow> Map.empty
                        | Some raw \<Rightarrow> parseFrontmatter raw)
              in \<lparr>skill = s, frontmatter = fm, clawdis = resolveClawdisMetadata fm\<rparr>)
         (map snd (merge_sources extraSkills bundledSkills managedSkills workspaceSkills))"

text \<open>
  The merge rule in the words of the specification: the entry for a name is the one of the
  highest-ranked source that defines the name, workspace over managed over bundled over
  extra; within one source the loader's last record of that name stands.
\<close>

definition last_named :: "string \<Rightarrow> Skill list \<Rightarrow> Skill option" where
  "last_named n ss = (case filter (\<lambda>s. name s = n) ss of [] \<Rightarrow> None | x # xs \<Rightarrow> Some (last (x # xs)))"

definition precedence_winner ::
  "Skill list \<Rightarrow> Skill list \<Rightarrow> Skill list \<Rightarrow> Skill list \<Rightarrow> string \<Rightarrow> Skill option" where
  "precedence_winner extraSkills bundledSkills managedSkills workspaceSkills n =
     (case last_named n workspaceSkills of Some s \<Rightarrow> Some s | None \<Rightarrow>
      (case last_named n managedSkills of Some s \<Rightarrow> Some s | None \<Rightarrow>
       (case last_named n bundledSkills of Some s \<Rightarrow> Some s | None \<Rightarrow>
          last_named n extraSkills)))"

section \<open>Activation: vocabulary of the statements and proofs\<close>

text \<open>Both activation loops as one loop over the pairs of configuration and primary variable.\<close>

fun apply_all ::
  "(SkillConfig option \<times> string option) list \<Rightarrow> environment \<times> updates \<Rightarrow> environment \<times> updates" where
  "apply_all [] st = st"
| "apply_all ((sc, pe) # rest) st = apply_all rest (apply_skill sc pe st)"

definition entry_pairs :: "ClawdisConfig option \<Rightarrow> SkillEntry list \<Rightarrow> (SkillConfig option \<times> string option) list" where
  "entry_pairs cfg entries =
     map (\<lambda>entry. (resolveSkillConfig cfg (resolveSkillKey (skill entry) entry),
                    entry_primaryEnv entry)) entries"

definition snapshot_pairs :: "ClawdisConfig option \<Rightarrow> SnapshotSkill list \<Rightarrow> (SkillConfig option \<times> string option) list" where
  "snapshot_pairs cfg ss = map (\<lambda>s. (resolveSkillConfig cfg (snap_name s), snap_primaryEnv s)) ss"

text \<open>A configuration without the overrides whose value is the empty string.\<close>

definition drop_empty_overrides :: "SkillConfig \<Rightarrow> SkillConfig" where
  "drop_empty_overrides c = c\<lparr>env := map_option (filter (\<lambda>(k, v). v \<noteq> [])) (env c)\<rparr>"

definition without_empty_overrides :: "ClawdisConfig option \<Rightarrow> ClawdisConfig option" where
  "without_empty_overrides cfg =
     map_option
       (\<lambda>c. c\<lparr>skills := map_option (\<lambda>table key. map_option drop_empty_overrides (table key))
                                    (skills c)\<rparr>)
       cfg"

text \<open>
  The per-skill configuration \<open>sc\<close> offers a value under the name \<open>k\<close>: its env table
  has a non-empty value for \<open>k\<close>, or \<open>k\<close> is the primary variable \<open>pe\<close> and the
  configuration has a non-empty \<open>apiKey\<close>.
\<close>

definition offers :: "SkillConfig option \<Rightarrow> string option \<Rightarrow> string \<Rightarrow> bool" where
  "offers sc pe k =
     (case sc of
        None \<Rightarrow> False
      | Some c \<Rightarrow>
          (case env c of None \<Rightarrow> False | Some table \<Rightarrow> list_ex (\<lambda>(k', v). k' = k \<and> v \<noteq> []) table)
          \<or> (pe = Some k \<and> k \<noteq> [] \<and> truthy (apiKey c)))"

text \<open>
  The updates hold a record, with the empty string as the value read before, under a
  name that stands for the variable \<open>n\<close>.
\<close>

definition recorded_empty :: "string \<Rightarrow> updates \<Rightarrow> bool" where
  "recorded_empty n us = list_ex (\<lambda>(k, prev). c_string k = n \<and> prev = Some []) us"

text \<open>The variable \<open>n\<close> still holds the empty string, or it has been recorded with it.\<close>

definition empty_or_recorded :: "string \<Rightarrow> environment \<times> updates \<Rightarrow> bool" where
  "empty_or_recorded n st = (fst st n = Some [] \<or> recorded_empty n (snd st))"

text \<open>
  The invariant of an activation started in \<open>e0\<close> whose writes all leave a non-empty
  value: every record holds what the variable read in \<open>e0\<close>, which was falsy, and a
  recorded variable is truthy now; every variable that is not recorded is as in \<open>e0\<close>.
\<close>

definition recorded_names :: "updates \<Rightarrow> string set" where
  "recorded_names us = {c_string k |k prev. (k, prev) \<in> set us \<and> valid_name (c_string k)}"

definition activation_inv :: "environment \<Rightarrow> environment \<times> updates \<Rightarrow> bool" where
  "activation_inv e0 st =
     ((\<forall>(k, prev) \<in> set (snd st). prev = getenv e0 k \<and> \<not> truthy prev)
      \<and> (\<forall>n \<in> recorded_names (snd st). truthy (fst st n))
      \<and> (\<forall>n. n \<notin> recorded_names (snd st) \<longrightarrow> fst st n = e0 n))"

text \<open>No value of the configuration begins with NUL, so no write leaves the empty string.\<close>

definition writes_non_empty :: "SkillConfig option \<Rightarrow> bool" where
  "writes_non_empty sc =
     (case sc of
        None \<Rightarrow> True
      | Some c \<Rightarrow>
          (case env c of None \<Rightarrow> True
           | Some table \<Rightarrow> list_all (\<lambda>(k, v). v = [] \<or> c_string v \<noteq> []) table)
          \<and> (case apiKey c of None \<Rightarrow> True | Some a \<Rightarrow> a = [] \<or> c_string a \<noteq> []))"

section \<open>Example inputs\<close>

definition example_skill :: "string \<Rightarrow> Skill" where
  "example_skill n =
     \<lparr>name = n, filePath = ''/ws/skills/'' @ n @ ''/SKILL.md'', description = [],
      source = ''clawdis-workspace''\<rparr>"

definition example_entry :: "ClawdisSkillMetadata \<Rightarrow> SkillEntry" where
  "example_entry m = \<lparr>skill = example_skill ''tool'', frontmatter = Map.empty, clawdis = Some m\<rparr>"

definition example_meta :: "SkillInstallSpec list \<Rightarrow> ClawdisSkillMetadata" where
  "example_meta specs =
     \<lparr>always = None, skillKey = None, primaryEnv = None, emoji = None, homepage = None,
      requires = None, install = Some specs\<rparr>"

definition example_spec ::
  "string option \<Rightarrow> string \<Rightarrow> string option \<Rightarrow> string option \<Rightarrow> SkillInstallSpec" where
  "example_spec i k f p =
     \<lparr>spec_id = i, kind = k, label = None, bins = None, formula = f, package = p, module = None\<rparr>"

definition example_request :: "string \<Rightarrow> SkillInstallRequest" where
  "example_request i =
     \<lparr>workspaceDir = ''/ws'', skillName = ''tool'', installId = i, timeoutMs = None, config = None\<rparr>"

text \<open>A host whose only directory with executables is \<^verbatim>\<open>/opt/bin\<close>, holding \<open>present\<close>.\<close>

definition example_host :: "string list \<Rightarrow> Host" where
  "example_host present =
     \<lparr>delimiter = CHR '':'', accessX = (\<lambda>dir bin. dir = ''/opt/bin'' \<and> bin \<in> set present),
      readFile = Map.empty, arrayMethods = [''constructor'', ''map'', ''filter'', ''join'']\<rparr>"

definition example_env :: environment where
  "example_env = [''PATH'' \<mapsto> ''/usr/bin:/opt/bin'']"

text \<open>A runner whose every process ends with the given exit code.\<close>

definition example_runner :: "int option \<Rightarrow> runner" where
  "example_runner c = (\<lambda>args t. \<lparr>pcode = c, pstdout = ''out '', pstderr = '' err''\<rparr>)"

definition example_named :: "string \<Rightarrow> ClawdisSkillMetadata \<Rightarrow> SkillEntry" where
  "example_named n m = \<lparr>skill = example_skill n, frontmatter = Map.empty, clawdis = Some m\<rparr>"

text \<open>Metadata without installers: \<open>always\<close>, \<open>skillKey\<close>, \<open>primaryEnv\<close> and \<open>requires\<close>.\<close>

definition example_gated ::
  "bool option \<Rightarrow> string option \<Rightarrow> string option \<Rightarrow> Requires option \<Rightarrow> ClawdisSkillMetadata" where
  "example_gated a k p r =
     \<lparr>always = a, skillKey = k, primaryEnv = p, emoji = None, homepage = None,
      requires = r, install = None\<rparr>"

definition example_config :: "(string \<times> SkillConfig) list \<Rightarrow> ClawdisConfig" where
  "example_config table = \<lparr>skills = Some (map_of table), skillsInstall = None, tree = JObj []\<rparr>"

definition example_env_empty :: environment where
  "example_env_empty = [''PATH'' \<mapsto> ''/usr/bin:/opt/bin'', ''TOKEN'' \<mapsto> []]"

text \<open>A skill record as the loader tags it with its source.\<close>

definition example_source_skill :: "string \<Rightarrow> string \<Rightarrow> Skill" where
  "example_source_skill src n =
     \<lparr>name = n, filePath = ''/'' @ src @ ''/'' @ n @ ''/SKILL.md'', description = [], source = src\<rparr>"

section \<open>Facts about strings\<close>

lemma decimal_0 [simp]: "decimal 0 = ''0''"
  by (simp add: decimal.simps)

lemma decimal_1 [simp]: "decimal (Suc 0) = ''1''"
  by (simp add: decimal.simps)

lemma decimal_nonempty: "decimal n \<noteq> []"
  by (subst decimal.simps) simp

lemma digit_not_ws: "d < 10 \<Longrightarrow> \<not> is_ws (''0123456789'' ! d)"
proof -
  assume "d < 10"
  then have "d \<in> {0, 1, 2, 3, 4, 5, 6, 7, 8, 9}" by auto
  then show ?thesis by (auto simp: is_ws_def)
qed

lemma last_decimal_not_ws: "\<not> is_ws (last (decimal n))"
  by (subst decimal.simps) (simp add: digit_not_ws)

lemma trim_id: "s \<noteq> [] \<Longrightarrow> \<not> is_ws (hd s) \<Longrightarrow> \<not> is_ws (last s) \<Longrightarrow> trim s = s"
proof -
  assume a: "s \<noteq> []" "\<not> is_ws (hd s)" "\<not> is_ws (last s)"
  then have front: "dropWhile is_ws s = s" by (cases s) auto
  from a have "dropWhile is_ws (rev s) = rev s"
    by (cases "rev s") (auto simp: hd_rev)
  with front show ?thesis by (simp add: trim_def)
qed

lemma trim_computed_id:
  assumes "k \<in> set kinds"
  shows "trim (k @ ''-'' @ decimal i) = k @ ''-'' @ decimal i"
proof (rule trim_id)
  show "k @ ''-'' @ decimal i \<noteq> []" by simp
  from assms show "\<not> is_ws (hd (k @ ''-'' @ decimal i))"
    by (auto simp: kinds_def is_ws_def)
  show "\<not> is_ws (last (k @ ''-'' @ decimal i))"
    by (simp add: decimal_nonempty last_decimal_not_ws)
qed

section \<open>Installer ids: properties\<close>

lemma findInstallSpec_from_first:
  "i < length specs \<Longrightarrow> resolveInstallId (specs ! i) (k + i) = x \<Longrightarrow>
   (\<And>j. j < i \<Longrightarrow> resolveInstallId (specs ! j) (k + j) \<noteq> x) \<Longrightarrow>
   findInstallSpec_from k specs x = Some (specs ! i)"
proof (induction specs arbitrary: k i)
  case Nil
  then show ?case by simp
next
  case (Cons s specs)
  show ?case
  proof (cases i)
    case 0
    with Cons.prems show ?thesis by simp
  next
    case (Suc i')
    from Cons.prems(3)[of 0] Suc have ne: "resolveInstallId s k \<noteq> x" by simp
    have "findInstallSpec_from (Suc k) specs x = Some (specs ! i')"
    proof (rule Cons.IH)
      show "i' < length specs" using Cons.prems(1) Suc by simp
      show "resolveInstallId (specs ! i') (Suc k + i') = x" using Cons.prems(2) Suc by simp
      fix j assume "j < i'"
      then show "resolveInstallId (specs ! j) (Suc k + j) \<noteq> x"
        using Cons.prems(3)[of "Suc j"] Suc by simp
    qed
    with ne Suc show ?thesis by simp
  qed
qed

lemmas example_defs =
  example_skill_def example_entry_def example_meta_def example_spec_def example_request_def
  example_host_def example_env_def example_runner_def example_named_def example_gated_def
  example_config_def example_env_empty_def example_source_skill_def

lemmas lookup_defs =
  findInstallSpec_def install_specs_def resolveInstallId_def trim_def is_ws_def

text \<open>
  C7, as stated, at a list whose first spec carries the explicit id \<^verbatim>\<open>brew-1\<close> and whose
  second spec, of kind brew, has no id: the computed id of position 1 is \<^verbatim>\<open>brew-1\<close>, and
  the lookup by it returns the spec at position 0. And a spec whose explicit id is
  \<^verbatim>\<open>" jq "\<close> is not found by that id.
\<close>

theorem installer_id_lookup_counterexample:
  "spec_id (example_spec None ''brew'' (Some ''ripgrep'') None) = None
   \<and> resolveInstallId (example_spec None ''brew'' (Some ''ripgrep'') None) 1 = ''brew-1''
   \<and> findInstallSpec
        (example_entry (example_meta
           [example_spec (Some ''brew-1'') ''brew'' (Some ''jq'') None,
            example_spec None ''brew'' (Some ''ripgrep'') None])) ''brew-1''
       \<noteq> Some (example_spec None ''brew'' (Some ''ripgrep'') None)
   \<and> findInstallSpec
        (example_entry (example_meta [example_spec (Some '' jq '') ''brew'' (Some ''jq'') None]))
        '' jq '' = None"
  by (simp add: example_defs lookup_defs)

lemma findInstallSpec_from_none:
  "(\<And>j. j < length specs \<Longrightarrow> resolveInstallId (specs ! j) (k + j) \<noteq> x) \<Longrightarrow>
   findInstallSpec_from k specs x = None"
proof (induction specs arbitrary: k)
  case Nil
  then show ?case by simp
next
  case (Cons s specs)
  from Cons.prems [of 0] have ne: "resolveInstallId s k \<noteq> x" by simp
  have "findInstallSpec_from (Suc k) specs x = None"
  proof (rule Cons.IH)
    fix j assume "j < length specs"
    then show "resolveInstallId (specs ! j) (Suc k + j) \<noteq> x"
      using Cons.prems [of "Suc j"] by simp
  qed
  with ne show ?case by simp
qed

text \<open>
  C7, amended. In the install list of an entry, the effective id of the spec at position
  \<open>i\<close> is \<^verbatim>\<open><kind>-<i>\<close> when the spec has no explicit id and its kind is one of the four
  declared kinds, and the explicit id without its surrounding white space when it has
  one. For every requested id, \<open>findInstallSpec\<close> returns the first spec in list order
  whose effective id equals the requested id, and nothing when no spec has that effective
  id; so the lookup by the effective id of position \<open>i\<close> returns the spec at position
  \<open>i\<close> whenever no earlier position has the same effective id.
\<close>

theorem installer_id_lookup:
  assumes "install_specs entry = specs"
  shows "(i < length specs \<and> spec_id (specs ! i) = None \<and> kind (specs ! i) \<in> set kinds \<longrightarrow>
            resolveInstallId (specs ! i) i = kind (specs ! i) @ ''-'' @ decimal i)
       \<and> (\<forall>x. i < length specs \<and> spec_id (specs ! i) = Some x \<longrightarrow>
            resolveInstallId (specs ! i) i = trim x)
       \<and> (i < length specs \<and> resolveInstallId (specs ! i) i = wanted
            \<and> (\<forall>j<i. resolveInstallId (specs ! j) j \<noteq> wanted) \<longrightarrow>
            findInstallSpec entry wanted = Some (specs ! i))
       \<and> ((\<forall>j<length specs. resolveInstallId (specs ! j) j \<noteq> wanted) \<longrightarrow>
            findInstallSpec entry wanted = None)"
proof (intro conjI impI allI)
  assume "i < length specs \<and> spec_id (specs ! i) = None \<and> kind (specs ! i) \<in> set kinds"
  then show "resolveInstallId (specs ! i) i = kind (specs ! i) @ ''-'' @ decimal i"
    using trim_computed_id [of "kind (specs ! i)" i] by (simp add: resolveInstallId_def)
next
  fix x assume "i < length specs \<and> spec_id (specs ! i) = Some x"
  then show "resolveInstallId (specs ! i) i = trim x"
    by (simp add: resolveInstallId_def)
next
  assume first: "i < length specs \<and> resolveInstallId (specs ! i) i = wanted
            \<and> (\<forall>j<i. resolveInstallId (specs ! j) j \<noteq> wanted)"
  have "findInstallSpec_from 0 specs wanted = Some (specs ! i)"
    using first by (intro findInstallSpec_from_first) auto
  with assms show "findInstallSpec entry wanted = Some (specs ! i)"
    by (simp add: findInstallSpec_def)
next
  assume none: "\<forall>j<length specs. resolveInstallId (specs ! j) j \<noteq> wanted"
  have "findInstallSpec_from 0 specs wanted = None"
    using none by (intro findInstallSpec_from_none) auto
  with assms show "findInstallSpec entry wanted = None"
    by (simp add: findInstallSpec_def)
qed

theorem installer_id_lookup_witness:
  "install_specs (example_entry (example_meta
       [example_spec (Some '' jq '') ''brew'' (Some ''jq'') None,
        example_spec None ''uv'' None (Some ''ruff'')]))
     = [example_spec (Some '' jq '') ''brew'' (Some ''jq'') None,
        example_spec None ''uv'' None (Some ''ruff'')]
   \<and> resolveInstallId (example_spec None ''uv'' None (Some ''ruff'')) 1 = ''uv-1''
   \<and> resolveInstallId (example_spec (Some '' jq '') ''brew'' (Some ''jq'') None) 0 = ''jq''
   \<and> findInstallSpec (example_entry (example_meta
       [example_spec (Some '' jq '') ''brew'' (Some ''jq'') None,
        example_spec None ''uv'' None (Some ''ruff'')])) ''uv-1''
     = Some (example_spec None ''uv'' None (Some ''ruff''))
   \<and> findInstallSpec (example_entry (example_meta
       [example_spec (Some '' jq '') ''brew'' (Some ''jq'') None,
        example_spec None ''uv'' None (Some ''ruff'')])) ''jq''
     = Some (example_spec (Some '' jq '') ''brew'' (Some ''jq'') None)
   \<and> findInstallSpec (example_entry (example_meta
       [example_spec (Some '' jq '') ''brew'' (Some ''jq'') None,
        example_spec None ''uv'' None (Some ''ruff'')])) '' jq ''
     = None"
  using
    installer_id_lookup [of "example_entry (example_meta
       [example_spec (Some '' jq '') ''brew'' (Some ''jq'') None,
        example_spec None ''uv'' None (Some ''ruff'')])"
     "[example_spec (Some '' jq '') ''brew'' (Some ''jq'') None,
        example_spec None ''uv'' None (Some ''ruff'')]" 1 "''uv-1''"]
    installer_id_lookup [of "example_entry (example_meta
       [example_spec (Some '' jq '') ''brew'' (Some ''jq'') None,
        example_spec None ''uv'' None (Some ''ruff'')])"
     "[example_spec (Some '' jq '') ''brew'' (Some ''jq'') None,
        example_spec None ''uv'' None (Some ''ruff'')]" 0 "''jq''"]
    installer_id_lookup [of "example_entry (example_meta
       [example_spec (Some '' jq '') ''brew'' (Some ''jq'') None,
        example_spec None ''uv'' None (Some ''ruff'')])"
     "[example_spec (Some '' jq '') ''brew'' (Some ''jq'') None,
        example_spec None ''uv'' None (Some ''ruff'')]" 0 "'' jq ''"]
  by (simp add: example_defs lookup_defs kinds_def All_less_Suc numeral_2_eq_2)

section \<open>Install dispatcher: properties\<close>

lemma buildInstallCommand_error_message:
  "error (buildInstallCommand spec prefs) = Some msg \<Longrightarrow> msg \<noteq> []"
  by (auto simp: buildInstallCommand_def synthesis_error_def split: if_splits option.splits)

lemma installSkill_synthesis_error:
  assumes "find (\<lambda>item. name (skill item) = skillName params) entries = Some entry"
    and "findInstallSpec entry (installId params) = Some spec"
    and "error (buildInstallCommand spec (resolveSkillsInstallPreferences (config params))) = Some msg"
  shows "installSkill h e run entries params = (failure msg, [])"
  using assms buildInstallCommand_error_message [OF assms(3)]
  by (simp add: installSkill_def Let_def)

lemma buildInstallCommand_brew_missing:
  "kind spec = ''brew'' \<Longrightarrow> \<not> truthy (formula spec) \<Longrightarrow>
   error (buildInstallCommand spec prefs) = Some ''missing brew formula''"
  by (cases "formula spec") (simp_all add: buildInstallCommand_def synthesis_error_def)

lemma buildInstallCommand_node_missing:
  "kind spec = ''node'' \<Longrightarrow> \<not> truthy (package spec) \<Longrightarrow>
   error (buildInstallCommand spec prefs) = Some ''missing node package''"
  by (cases "package spec") (simp_all add: buildInstallCommand_def synthesis_error_def)

lemma buildInstallCommand_go_missing:
  "kind spec = ''go'' \<Longrightarrow> \<not> truthy (module spec) \<Longrightarrow>
   error (buildInstallCommand spec prefs) = Some ''missing go module''"
  by (cases "module spec") (simp_all add: buildInstallCommand_def synthesis_error_def)

lemma buildInstallCommand_uv_missing:
  "kind spec = ''uv'' \<Longrightarrow> \<not> truthy (package spec) \<Longrightarrow>
   error (buildInstallCommand spec prefs) = Some ''missing uv package''"
  by (cases "package spec") (simp_all add: buildInstallCommand_def synthesis_error_def)

lemma buildInstallCommand_unsupported:
  "kind spec \<notin> set kinds \<Longrightarrow>
   error (buildInstallCommand spec prefs) = Some ''unsupported installer''"
  by (simp add: buildInstallCommand_def synthesis_error_def kinds_def)

lemma buildInstallCommand_uv_ok:
  "kind spec = ''uv'' \<Longrightarrow> package spec = Some p \<Longrightarrow> p \<noteq> [] \<Longrightarrow>
   buildInstallCommand spec prefs = \<lparr>argv = Some [''uv'', ''tool'', ''install'', p], error = None\<rparr>"
  by (simp add: buildInstallCommand_def)

lemmas install_defs =
  installSkill_def runInstallCommand_def buildInstallCommand_def synthesis_error_def
  clampTimeout_def hasBinary_def resolveSkillsInstallPreferences_def failure_def kinds_def

text \<open>
  C6. When the skill and the installer are found and the synthesis of the command gives an
  error, \<open>installSkill\<close> returns the failure carrying that error and hands no command to
  the process runner, neither the install command nor the bootstrap of uv. The synthesis
  errors are: kind brew without a formula, kind node without a package, kind go without a
  module, kind uv without a package, and a kind outside the four supported ones.
\<close>

theorem synthesis_error_spawns_nothing:
  assumes "find (\<lambda>item. name (skill item) = skillName params) entries = Some entry"
    and "findInstallSpec entry (installId params) = Some spec"
  shows "(\<forall>msg. error (buildInstallCommand spec (resolveSkillsInstallPreferences (config params))) = Some msg
            \<longrightarrow> installSkill h e run entries params = (failure msg, []))
       \<and> (kind spec = ''brew'' \<and> \<not> truthy (formula spec)
            \<longrightarrow> installSkill h e run entries params = (failure ''missing brew formula'', []))
       \<and> (kind spec = ''node'' \<and> \<not> truthy (package spec)
            \<longrightarrow> installSkill h e run entries params = (failure ''missing node package'', []))
       \<and> (kind spec = ''go'' \<and> \<not> truthy (module spec)
            \<longrightarrow> installSkill h e run entries params = (failure ''missing go module'', []))
       \<and> (kind spec = ''uv'' \<and> \<not> truthy (package spec)
            \<longrightarrow> installSkill h e run entries params = (failure ''missing uv package'', []))
       \<and> (kind spec \<notin> set kinds
            \<longrightarrow> installSkill h e run entries params = (failure ''unsupported installer'', []))"
  using installSkill_synthesis_error [OF assms]
    buildInstallCommand_brew_missing buildInstallCommand_node_missing
    buildInstallCommand_go_missing buildInstallCommand_uv_missing buildInstallCommand_unsupported
  by blast

theorem synthesis_error_spawns_nothing_witness:
  "find (\<lambda>item. name (skill item) = skillName (example_request ''brew-0''))
       [example_entry (example_meta [example_spec None ''brew'' None None])]
     = Some (example_entry (example_meta [example_spec None ''brew'' None None]))
   \<and> findInstallSpec (example_entry (example_meta [example_spec None ''brew'' None None]))
        (installId (example_request ''brew-0'')) = Some (example_spec None ''brew'' None None)
   \<and> kind (example_spec None ''brew'' None None) = ''brew''
   \<and> \<not> truthy (formula (example_spec None ''brew'' None None))
   \<and> installSkill (example_host [''brew'']) example_env (example_runner (Some 0))
        [example_entry (example_meta [example_spec None ''brew'' None None])]
        (example_request ''brew-0'')
     = (failure ''missing brew formula'', [])"
  using synthesis_error_spawns_nothing [of "example_request ''brew-0''"
      "[example_entry (example_meta [example_spec None ''brew'' None None])]"
      "example_entry (example_meta [example_spec None ''brew'' None None])"
      "example_spec None ''brew'' None None"
      "example_host [''brew'']" example_env "example_runner (Some 0)"]
  by (simp add: example_defs lookup_defs)

text \<open>
  C4, as stated, at a spec of kind uv that has no package, with uv absent from the path:
  with brew present \<open>installSkill\<close> does not run \<^verbatim>\<open>brew install uv\<close>, and with brew
  absent its message is not the one about uv; both times it returns the synthesis error
  and no command reaches the runner.
\<close>

theorem uv_bootstrap_counterexample:
  "kind (example_spec None ''uv'' None None) = ''uv''
   \<and> findInstallSpec (example_entry (example_meta [example_spec None ''uv'' None None])) ''uv-0''
       = Some (example_spec None ''uv'' None None)
   \<and> \<not> hasBinary (example_host [''brew'']) example_env ''uv''
   \<and> hasBinary (example_host [''brew'']) example_env ''brew''
   \<and> installSkill (example_host [''brew'']) example_env (example_runner (Some 0))
        [example_entry (example_meta [example_spec None ''uv'' None None])]
        (example_request ''uv-0'')
       = (failure ''missing uv package'', [])
   \<and> \<not> hasBinary (example_host []) example_env ''uv''
   \<and> \<not> hasBinary (example_host []) example_env ''brew''
   \<and> installSkill (example_host []) example_env (example_runner (Some 0))
        [example_entry (example_meta [example_spec None ''uv'' None None])]
        (example_request ''uv-0'')
       = (failure ''missing uv package'', [])"
  by (simp add: example_defs lookup_defs install_defs)

text \<open>
  C4, amended. For every install request whose resolved spec has kind uv and a non-empty
  package, when the uv binary is absent from the search path: if brew is present, the
  first command handed to the runner is \<^verbatim>\<open>brew install uv\<close>; if its exit code is not
  zero or is absent, \<open>installSkill\<close> returns the failure carrying the trimmed output and
  the exit code of that sub-install and nothing else is run; if its exit code is zero, the
  command \<^verbatim>\<open>uv tool install <package>\<close> is run next. If brew is absent too, the result is
  the failure \<^verbatim>\<open>uv not installed (install via brew)\<close> and nothing is run.
\<close>

theorem uv_bootstrap:
  assumes "find (\<lambda>item. name (skill item) = skillName params) entries = Some entry"
    and "findInstallSpec entry (installId params) = Some spec"
    and "kind spec = ''uv''" and "package spec = Some p" and "p \<noteq> []"
    and "\<not> hasBinary h e ''uv''"
  shows "(hasBinary h e ''brew'' \<longrightarrow>
            (\<exists>rest. snd (installSkill h e run entries params)
                      = ([''brew'', ''install'', ''uv''], clampTimeout (timeoutMs params)) # rest)
          \<and> (pcode (run [''brew'', ''install'', ''uv''] (clampTimeout (timeoutMs params))) \<noteq> Some 0 \<longrightarrow>
               installSkill h e run entries params
                 = (\<lparr>ok = False, message = ''Failed to install uv (brew)'',
                      stdout = trim (pstdout (run [''brew'', ''install'', ''uv''] (clampTimeout (timeoutMs params)))),
                      stderr = trim (pstderr (run [''brew'', ''install'', ''uv''] (clampTimeout (timeoutMs params)))),
                      code = pcode (run [''brew'', ''install'', ''uv''] (clampTimeout (timeoutMs params)))\<rparr>,
                    [([''brew'', ''install'', ''uv''], clampTimeout (timeoutMs params))]))
          \<and> (pcode (run [''brew'', ''install'', ''uv''] (clampTimeout (timeoutMs params))) = Some 0 \<longrightarrow>
               snd (installSkill h e run entries params)
                 = [([''brew'', ''install'', ''uv''], clampTimeout (timeoutMs params)),
                    ([''uv'', ''tool'', ''install'', p], clampTimeout (timeoutMs params))]))
       \<and> (\<not> hasBinary h e ''brew'' \<longrightarrow>
            installSkill h e run entries params = (failure ''uv not installed (install via brew)'', []))"
  using assms
  by (simp add: installSkill_def Let_def buildInstallCommand_uv_ok runInstallCommand_def)


theorem uv_bootstrap_witness:
  "installSkill (example_host [''brew'']) example_env (example_runner (Some 1))
        [example_entry (example_meta [example_spec None ''uv'' None (Some ''ruff'')])]
        (example_request ''uv-0'')
     = (\<lparr>ok = False, message = ''Failed to install uv (brew)'', stdout = ''out'',
          stderr = ''err'', code = Some 1\<rparr>,
        [([''brew'', ''install'', ''uv''], 300000)])
   \<and> installSkill (example_host [''brew'']) example_env (example_runner None)
        [example_entry (example_meta [example_spec None ''uv'' None (Some ''ruff'')])]
        (example_request ''uv-0'')
     = (\<lparr>ok = False, message = ''Failed to install uv (brew)'', stdout = ''out'',
          stderr = ''err'', code = None\<rparr>,
        [([''brew'', ''install'', ''uv''], 300000)])
   \<and> snd (installSkill (example_host [''brew'']) example_env (example_runner (Some 0))
        [example_entry (example_meta [example_spec None ''uv'' None (Some ''ruff'')])]
        (example_request ''uv-0''))
     = [([''brew'', ''install'', ''uv''], 300000), ([''uv'', ''tool'', ''install'', ''ruff''], 300000)]
   \<and> installSkill (example_host []) example_env (example_runner (Some 0))
        [example_entry (example_meta [example_spec None ''uv'' None (Some ''ruff'')])]
        (example_request ''uv-0'')
     = (failure ''uv not installed (install via brew)'', [])"
  using
    uv_bootstrap [of "example_request ''uv-0''"
      "[example_entry (example_meta [example_spec None ''uv'' None (Some ''ruff'')])]"
      "example_entry (example_meta [example_spec None ''uv'' None (Some ''ruff'')])"
      "example_spec None ''uv'' None (Some ''ruff'')" "''ruff''"
      "example_host [''brew'']" example_env "example_runner (Some 1)"]
    uv_bootstrap [of "example_request ''uv-0''"
      "[example_entry (example_meta [example_spec None ''uv'' None (Some ''ruff'')])]"
      "example_entry (example_meta [example_spec None ''uv'' None (Some ''ruff'')])"
      "example_spec None ''uv'' None (Some ''ruff'')" "''ruff''"
      "example_host [''brew'']" example_env "example_runner None"]
    uv_bootstrap [of "example_request ''uv-0''"
      "[example_entry (example_meta [example_spec None ''uv'' None (Some ''ruff'')])]"
      "example_entry (example_meta [example_spec None ''uv'' None (Some ''ruff'')])"
      "example_spec None ''uv'' None (Some ''ruff'')" "''ruff''"
      "example_host [''brew'']" example_env "example_runner (Some 0)"]
    uv_bootstrap [of "example_request ''uv-0''"
      "[example_entry (example_meta [example_spec None ''uv'' None (Some ''ruff'')])]"
      "example_entry (example_meta [example_spec None ''uv'' None (Some ''ruff'')])"
      "example_spec None ''uv'' None (Some ''ruff'')" "''ruff''"
      "example_host []" example_env "example_runner (Some 0)"]
  by (simp add: example_defs lookup_defs hasBinary_def clampTimeout_def failure_def)

section \<open>Eligibility filter: properties\<close>

lemmas store_defs =
  getenv_def setenv_def unsetenv_def valid_name_def c_string_def process_env_get_def
  table_get_def inherited_member_def object_prototype_names_def

lemmas eligibility_defs =
  shouldIncludeSkill_def resolveSkillKey_def resolveSkillConfig_def entry_requires_def
  entry_primaryEnv_def envRequirementMet_def config_env_value_def config_apiKey_def
  store_defs

text \<open>
  C2. The decision of \<open>shouldIncludeSkill\<close> follows a fixed priority. A skill whose
  per-skill configuration sets \<open>enabled\<close> to false is excluded, also when its metadata
  declares \<open>always\<close> true. Otherwise a skill whose metadata declares \<open>always\<close> true is
  included on every host and in every environment, so whether or not its binaries,
  variables and configuration paths are there.
\<close>

theorem eligibility_priority:
  "(\<forall>c. resolveSkillConfig cfg (resolveSkillKey (skill entry) entry) = Some c \<and> enabled c = Some False
         \<longrightarrow> \<not> shouldIncludeSkill h e entry cfg)
   \<and> ((\<forall>c. resolveSkillConfig cfg (resolveSkillKey (skill entry) entry) = Some c
             \<longrightarrow> enabled c \<noteq> Some False)
        \<and> (\<exists>m. clawdis entry = Some m \<and> always m = Some True)
         \<longrightarrow> shouldIncludeSkill h e entry cfg)"
  by (auto simp: shouldIncludeSkill_def Let_def split: option.splits)

theorem eligibility_priority_witness:
  "resolveSkillConfig (Some (example_config [(''tool'', \<lparr>enabled = Some False, apiKey = None, env = None\<rparr>)]))
      (resolveSkillKey (skill (example_named ''tool''
         (example_gated (Some True) None None
            (Some \<lparr>req_bins = [''ffmpeg''], req_env = [''WEATHER_KEY''], req_config = [''voice.enabled'']\<rparr>))))
         (example_named ''tool''
         (example_gated (Some True) None None
            (Some \<lparr>req_bins = [''ffmpeg''], req_env = [''WEATHER_KEY''], req_config = [''voice.enabled'']\<rparr>))))
     = Some \<lparr>enabled = Some False, apiKey = None, env = None\<rparr>
   \<and> \<not> shouldIncludeSkill (example_host []) example_env
        (example_named ''tool''
         (example_gated (Some True) None None
            (Some \<lparr>req_bins = [''ffmpeg''], req_env = [''WEATHER_KEY''], req_config = [''voice.enabled'']\<rparr>)))
        (Some (example_config [(''tool'', \<lparr>enabled = Some False, apiKey = None, env = None\<rparr>)]))
   \<and> shouldIncludeSkill (example_host []) example_env
        (example_named ''tool''
         (example_gated (Some True) None None
            (Some \<lparr>req_bins = [''ffmpeg''], req_env = [''WEATHER_KEY''], req_config = [''voice.enabled'']\<rparr>)))
        (Some (example_config []))
   \<and> \<not> shouldIncludeSkill (example_host []) example_env
        (example_named ''tool''
         (example_gated None None None
            (Some \<lparr>req_bins = [''ffmpeg''], req_env = [''WEATHER_KEY''], req_config = [''voice.enabled'']\<rparr>)))
        (Some (example_config []))"
  using
    eligibility_priority [of
      "Some (example_config [(''tool'', \<lparr>enabled = Some False, apiKey = None, env = None\<rparr>)])"
      "example_named ''tool''
         (example_gated (Some True) None None
            (Some \<lparr>req_bins = [''ffmpeg''], req_env = [''WEATHER_KEY''], req_config = [''voice.enabled'']\<rparr>))"
      "example_host []" example_env]
    eligibility_priority [of
      "Some (example_config [])"
      "example_named ''tool''
         (example_gated (Some True) None None
            (Some \<lparr>req_bins = [''ffmpeg''], req_env = [''WEATHER_KEY''], req_config = [''voice.enabled'']\<rparr>))"
      "example_host []" example_env]
  by (simp add: example_defs eligibility_defs hasBinary_def)



lemma c_string_id: "CHR 0x00 \<notin> set s \<Longrightarrow> c_string s = s"
  unfolding c_string_def takeWhile_eq_all_conv by auto

lemma getenv_plain: "valid_name n \<Longrightarrow> CHR 0x00 \<notin> set n \<Longrightarrow> getenv e n = e n"
  by (simp add: getenv_def c_string_id)









section \<open>Environment activator: properties\<close>

lemma apply_entries_pairs: "apply_entries cfg entries st = apply_all (entry_pairs cfg entries) st"
  by (induction entries arbitrary: st) (simp_all add: entry_pairs_def)

lemma apply_snapshot_pairs: "apply_snapshot_skills cfg ss st = apply_all (snapshot_pairs cfg ss) st"
  by (induction ss arbitrary: st) (simp_all add: snapshot_pairs_def)

subsection \<open>Empty overrides\<close>

lemma apply_env_table_filter:
  "apply_env_table (filter (\<lambda>(k, v). v \<noteq> []) table) st = apply_env_table table st"
  by (induction table st rule: apply_env_table.induct) auto

lemma apply_skill_drop:
  "apply_skill (map_option drop_empty_overrides sc) pe st = apply_skill sc pe st"
  by (cases sc)
     (auto simp: apply_skill_def drop_empty_overrides_def apply_env_table_filter split: option.splits)

lemma resolveSkillConfig_without:
  "resolveSkillConfig (without_empty_overrides cfg) key
   = map_option drop_empty_overrides (resolveSkillConfig cfg key)"
  by (auto simp: resolveSkillConfig_def without_empty_overrides_def drop_empty_overrides_def
           split: option.splits)

lemma apply_all_drop:
  "apply_all (map (\<lambda>(sc, pe). (map_option drop_empty_overrides sc, pe)) ps) st = apply_all ps st"
  by (induction ps st rule: apply_all.induct) (simp_all add: apply_skill_drop)

lemma entry_pairs_without:
  "entry_pairs (without_empty_overrides cfg) entries
   = map (\<lambda>(sc, pe). (map_option drop_empty_overrides sc, pe)) (entry_pairs cfg entries)"
  by (simp add: entry_pairs_def resolveSkillConfig_without)

lemma snapshot_pairs_without:
  "snapshot_pairs (without_empty_overrides cfg) ss
   = map (\<lambda>(sc, pe). (map_option drop_empty_overrides sc, pe)) (snapshot_pairs cfg ss)"
  by (simp add: snapshot_pairs_def resolveSkillConfig_without)

lemma entries_without_empty:
  "applySkillEnvOverrides entries (without_empty_overrides cfg) e = applySkillEnvOverrides entries cfg e"
  by (simp add: applySkillEnvOverrides_def apply_entries_pairs entry_pairs_without apply_all_drop)

lemma snapshot_without_empty:
  "applySkillEnvOverridesFromSnapshot snapshot (without_empty_overrides cfg) e
   = applySkillEnvOverridesFromSnapshot snapshot cfg e"
  by (cases snapshot)
     (simp_all add: applySkillEnvOverridesFromSnapshot_def apply_snapshot_pairs
        snapshot_pairs_without apply_all_drop)

subsection \<open>A variable that holds the empty string\<close>

lemma empty_read_falsy: "getenv e k = Some [] \<Longrightarrow> \<not> member_truthy (process_env_get e k)"
  by (simp add: process_env_get_def)

lemma empty_counts_as_missing:
  assumes "getenv e E = Some []" and "clawdis entry = Some m" and "always m \<noteq> Some True"
    and "requires m = Some r" and "E \<in> set (req_env r)"
    and "\<not> member_truthy (config_env_value (resolveSkillConfig cfg (resolveSkillKey (skill entry) entry)) E)"
    and "\<not> (truthy (config_apiKey (resolveSkillConfig cfg (resolveSkillKey (skill entry) entry)))
            \<and> primaryEnv m = Some E)"
  shows "\<not> shouldIncludeSkill h e entry cfg"
proof -
  have "\<not> envRequirementMet e (resolveSkillConfig cfg (resolveSkillKey (skill entry) entry)) entry E"
    using assms(1,2,6,7) by (simp add: envRequirementMet_def empty_read_falsy entry_primaryEnv_def)
  with assms(5) have "\<not> list_all (envRequirementMet e
      (resolveSkillConfig cfg (resolveSkillKey (skill entry) entry)) entry) (req_env r)"
    by (auto simp: list_all_iff)
  then show ?thesis
    using assms(2,3,4)
    by (auto simp: shouldIncludeSkill_def Let_def entry_requires_def split: option.splits)
qed

lemma getenv_empty_unset:
  "getenv (e(E \<mapsto> [])) x = (if valid_name (c_string x) \<and> c_string x = E then Some [] else getenv (e(E := None)) x)"
  by (auto simp: getenv_def)

lemma getenv_unset_at:
  "valid_name (c_string x) \<Longrightarrow> c_string x = E \<Longrightarrow> getenv (e(E := None)) x = None"
  by (simp add: getenv_def)

lemma inherited_has_no_nul: "x \<in> set object_prototype_names \<Longrightarrow> c_string x = x"
  by (auto simp: object_prototype_names_def c_string_def)

lemma process_env_get_empty_unset:
  assumes "E \<notin> set object_prototype_names"
  shows "member_truthy (process_env_get (e(E \<mapsto> [])) x)
         = member_truthy (process_env_get (e(E := None)) x)"
proof (cases "valid_name (c_string x) \<and> c_string x = E")
  case True
  then have "x \<notin> set object_prototype_names"
    using assms inherited_has_no_nul [of x] by auto
  with True show ?thesis
    by (simp add: process_env_get_def getenv_empty_unset getenv_unset_at inherited_member_def)
next
  case False
  then have "getenv (e(E \<mapsto> [])) x = getenv (e(E := None)) x"
    unfolding getenv_empty_unset by auto
  then show ?thesis
    by (simp add: process_env_get_def)
qed

lemma hasBinary_empty_unset: "hasBinary h (e(E \<mapsto> [])) b = hasBinary h (e(E := None)) b"
  by (simp add: hasBinary_def)

lemma shouldIncludeSkill_empty_unset:
  assumes "E \<notin> set object_prototype_names"
  shows "shouldIncludeSkill h (e(E \<mapsto> [])) entry cfg = shouldIncludeSkill h (e(E := None)) entry cfg"
proof -
  have 1: "hasBinary h (e(E \<mapsto> [])) = hasBinary h (e(E := None))"
    by (rule ext) (rule hasBinary_empty_unset)
  have 2: "envRequirementMet (e(E \<mapsto> [])) sc entry = envRequirementMet (e(E := None)) sc entry" for sc
    by (rule ext) (simp add: envRequirementMet_def process_env_get_empty_unset [OF assms])
  show ?thesis unfolding shouldIncludeSkill_def 1 2 ..
qed


subsection \<open>Overwriting a variable that holds the empty string\<close>

lemma recorded_empty_iff:
  "recorded_empty n us \<longleftrightarrow> (\<exists>k. c_string k = n \<and> (k, Some []) \<in> set us)"
  by (auto simp: recorded_empty_def list_ex_iff)

lemma recorded_empty_append:
  "recorded_empty n (us @ vs) \<longleftrightarrow> recorded_empty n us \<or> recorded_empty n vs"
  by (auto simp: recorded_empty_def)

lemma env_table_recorded_mono:
  "recorded_empty n (snd st) \<Longrightarrow> recorded_empty n (snd (apply_env_table table st))"
  by (induction table st rule: apply_env_table.induct) (auto simp: recorded_empty_append)

lemma primary_recorded_mono:
  "recorded_empty n (snd st) \<Longrightarrow> recorded_empty n (snd (apply_primary pe key st))"
  by (auto simp: apply_primary_def recorded_empty_append split: option.splits)

lemma skill_recorded_mono:
  "recorded_empty n (snd st) \<Longrightarrow> recorded_empty n (snd (apply_skill sc pe st))"
  by (auto simp: apply_skill_def primary_recorded_mono env_table_recorded_mono split: option.splits)

lemma all_recorded_mono:
  "recorded_empty n (snd st) \<Longrightarrow> recorded_empty n (snd (apply_all ps st))"
  by (induction ps st rule: apply_all.induct) (auto simp: skill_recorded_mono)

lemma falsy_read:
  assumes "\<not> member_truthy (process_env_get e k)" and "valid_name (c_string k)"
  shows "getenv e k = e (c_string k)" and "\<not> truthy (e (c_string k))"
proof -
  show g: "getenv e k = e (c_string k)" using assms(2) by (simp add: getenv_def)
  show "\<not> truthy (e (c_string k))"
    using assms(1) unfolding process_env_get_def g by (cases "e (c_string k)") auto
qed

lemma setenv_other: "c_string k \<noteq> n \<Longrightarrow> setenv e k v n = e n"
  by (simp add: setenv_def)

lemma write_same:
  assumes "valid_name n" and "c_string k = n" and "empty_or_recorded n (e, us)"
    and "\<not> member_truthy (process_env_get e k)"
  shows "recorded_empty n (us @ [(k, getenv e k)])"
proof (cases "e n = Some []")
  case True
  then have "getenv e k = Some []" using assms(1,2) by (simp add: getenv_def)
  then show ?thesis using assms(2) by (simp add: recorded_empty_def)
next
  case False
  with assms(3) show ?thesis by (simp add: empty_or_recorded_def recorded_empty_append)
qed

lemma write_keeps:
  assumes "valid_name n" and "empty_or_recorded n (e, us)"
    and "\<not> member_truthy (process_env_get e k)"
  shows "empty_or_recorded n (setenv e k v, us @ [(k, getenv e k)])"
proof (cases "c_string k = n")
  case True
  from write_same [OF assms(1) True assms(2,3)] show ?thesis
    by (simp add: empty_or_recorded_def)
next
  case False
  with assms(2) show ?thesis
    by (auto simp: empty_or_recorded_def setenv_other recorded_empty_append)
qed

lemma truthy_read_not_empty:
  assumes "member_truthy (process_env_get e k)" and "valid_name (c_string k)"
  shows "e (c_string k) \<noteq> Some []"
  using assms by (auto simp: process_env_get_def getenv_def split: option.splits)

lemma env_table_keeps:
  "valid_name n \<Longrightarrow> empty_or_recorded n st \<Longrightarrow> empty_or_recorded n (apply_env_table table st)"
  by (induction table st rule: apply_env_table.induct) (auto simp: write_keeps)

lemma primary_keeps:
  "valid_name n \<Longrightarrow> empty_or_recorded n st \<Longrightarrow> empty_or_recorded n (apply_primary pe key st)"
  by (cases st) (auto simp: apply_primary_def write_keeps split: option.splits)

lemma skill_keeps:
  "valid_name n \<Longrightarrow> empty_or_recorded n st \<Longrightarrow> empty_or_recorded n (apply_skill sc pe st)"
  by (auto simp: apply_skill_def primary_keeps env_table_keeps split: option.splits)

lemma all_keeps:
  "valid_name n \<Longrightarrow> empty_or_recorded n st \<Longrightarrow> empty_or_recorded n (apply_all ps st)"
  by (induction ps st rule: apply_all.induct) (auto simp: skill_keeps)

lemma attempt_records:
  assumes "valid_name n" and "c_string k = n" and "empty_or_recorded n (e, us)"
  shows "member_truthy (process_env_get e k) \<longrightarrow> recorded_empty n us"
    and "\<not> member_truthy (process_env_get e k) \<longrightarrow> recorded_empty n (us @ [(k, getenv e k)])"
proof -
  show "member_truthy (process_env_get e k) \<longrightarrow> recorded_empty n us"
    using assms truthy_read_not_empty [of e k] by (auto simp: empty_or_recorded_def)
  show "\<not> member_truthy (process_env_get e k) \<longrightarrow> recorded_empty n (us @ [(k, getenv e k)])"
    using write_same [OF assms] by simp
qed

lemma env_table_offer:
  "valid_name n \<Longrightarrow> c_string k = n \<Longrightarrow> empty_or_recorded n st \<Longrightarrow>
   list_ex (\<lambda>(k', v). k' = k \<and> v \<noteq> []) table \<Longrightarrow>
   recorded_empty n (snd (apply_env_table table st))"
proof (induction table st rule: apply_env_table.induct)
  case (1 st)
  then show ?case by simp
next
  case (2 envKey envValue rest e us)
  show ?case
  proof (cases "envKey = k \<and> envValue \<noteq> []")
    case True
    with attempt_records [OF "2.prems"(1,2,3)] show ?thesis
      by (auto intro: env_table_recorded_mono)
  next
    case False
    with "2.prems"(4) have rest: "list_ex (\<lambda>(k', v). k' = k \<and> v \<noteq> []) rest" by auto
    show ?thesis
    proof (cases "envValue = [] \<or> member_truthy (process_env_get e envKey)")
      case True
      with "2.IH"(1) [OF True "2.prems"(1,2,3) rest] show ?thesis by simp
    next
      case skip: False
      have "empty_or_recorded n (setenv e envKey envValue, us @ [(envKey, getenv e envKey)])"
        using skip "2.prems"(1,3) by (intro write_keeps) auto
      with "2.IH"(2) [OF skip "2.prems"(1,2) _ rest] skip show ?thesis by simp
    qed
  qed
qed

lemma primary_offer:
  assumes "valid_name n" and "c_string k = n" and "empty_or_recorded n st"
    and "k \<noteq> []" and "truthy key"
  shows "recorded_empty n (snd (apply_primary (Some k) key st))"
proof -
  obtain e us where st: "st = (e, us)" by (cases st)
  obtain a where key: "key = Some a" "a \<noteq> []" using assms(5) by (cases key) auto
  show ?thesis
    using attempt_records [OF assms(1,2) assms(3) [unfolded st]] assms(4) key
    by (auto simp: st apply_primary_def)
qed

lemma skill_offer:
  assumes "valid_name n" and "c_string k = n" and "empty_or_recorded n st" and "offers sc pe k"
  shows "recorded_empty n (snd (apply_skill sc pe st))"
proof -
  from assms(4) obtain c where sc: "sc = Some c" by (cases sc) (auto simp: offers_def)
  let ?mid = "case env c of None \<Rightarrow> st | Some table \<Rightarrow> apply_env_table table st"
  have mid: "empty_or_recorded n ?mid"
    using assms(1,3) by (auto simp: env_table_keeps split: option.splits)
  from assms(4) sc consider
      (table) t where "env c = Some t" "list_ex (\<lambda>(k', v). k' = k \<and> v \<noteq> []) t"
    | (key) "pe = Some k" "k \<noteq> []" "truthy (apiKey c)"
    by (auto simp: offers_def split: option.splits)
  then show ?thesis
  proof cases
    case table
    then have "recorded_empty n (snd ?mid)"
      using env_table_offer [OF assms(1,2,3)] by simp
    then show ?thesis
      by (simp add: sc apply_skill_def primary_recorded_mono)
  next
    case key
    then show ?thesis
      using primary_offer [OF assms(1,2) mid] by (simp add: sc apply_skill_def)
  qed
qed

lemma all_offer:
  "valid_name n \<Longrightarrow> c_string k = n \<Longrightarrow> empty_or_recorded n st \<Longrightarrow>
   (sc, pe) \<in> set ps \<Longrightarrow> offers sc pe k \<Longrightarrow> recorded_empty n (snd (apply_all ps st))"
proof (induction ps st rule: apply_all.induct)
  case (1 st)
  then show ?case by simp
next
  case (2 sc' pe' rest st)
  show ?case
  proof (cases "(sc, pe) = (sc', pe')")
    case True
    with 2 show ?thesis by (auto intro!: all_recorded_mono skill_offer)
  next
    case False
    with 2 show ?thesis by (auto simp: skill_keeps)
  qed
qed

lemma getenv_empty_start:
  assumes "getenv e k = Some []"
  shows "valid_name (c_string k)" and "empty_or_recorded (c_string k) (e, [])"
  using assms by (auto simp: getenv_def empty_or_recorded_def split: if_splits)

lemma entries_record_empty:
  assumes "getenv e k = Some []" and "entry \<in> set entries"
    and "offers (resolveSkillConfig cfg (resolveSkillKey (skill entry) entry)) (entry_primaryEnv entry) k"
  shows "\<exists>k'. c_string k' = c_string k \<and> (k', Some []) \<in> set (snd (applySkillEnvOverrides entries cfg e))"
proof -
  have "(resolveSkillConfig cfg (resolveSkillKey (skill entry) entry), entry_primaryEnv entry)
          \<in> set (entry_pairs cfg entries)"
    using assms(2) by (auto simp: entry_pairs_def)
  then have "recorded_empty (c_string k) (snd (apply_all (entry_pairs cfg entries) (e, [])))"
    using getenv_empty_start [OF assms(1)] assms(3) by (intro all_offer) auto
  then show ?thesis
    by (simp add: applySkillEnvOverrides_def apply_entries_pairs recorded_empty_iff)
qed

lemma snapshot_record_empty:
  assumes "getenv e k = Some []" and "s \<in> set (snap_skills snap)"
    and "offers (resolveSkillConfig cfg (snap_name s)) (snap_primaryEnv s) k"
  shows "\<exists>k'. c_string k' = c_string k
           \<and> (k', Some []) \<in> set (snd (applySkillEnvOverridesFromSnapshot (Some snap) cfg e))"
proof -
  have "(resolveSkillConfig cfg (snap_name s), snap_primaryEnv s)
          \<in> set (snapshot_pairs cfg (snap_skills snap))"
    using assms(2) by (auto simp: snapshot_pairs_def)
  then have "recorded_empty (c_string k)
               (snd (apply_all (snapshot_pairs cfg (snap_skills snap)) (e, [])))"
    using getenv_empty_start [OF assms(1)] assms(3) by (intro all_offer) auto
  then show ?thesis
    by (simp add: applySkillEnvOverridesFromSnapshot_def apply_snapshot_pairs recorded_empty_iff)
qed

lemma single_override:
  assumes "env c = Some [(k, v)]" and "v \<noteq> []" and "apiKey c = None" and "getenv e k = Some []"
  shows "apply_skill (Some c) pe (e, []) = (setenv e k v, [(k, Some [])])"
  using assms by (simp add: apply_skill_def apply_primary_def empty_read_falsy split: option.splits)

lemma single_credential:
  assumes "env c = None" and "apiKey c = Some a" and "a \<noteq> []" and "k \<noteq> []"
    and "getenv e k = Some []"
  shows "apply_skill (Some c) (Some k) (e, []) = (setenv e k a, [(k, Some [])])"
  using assms by (simp add: apply_skill_def apply_primary_def empty_read_falsy)


subsection \<open>Reversal\<close>

lemma recorded_names_Nil: "recorded_names [] = {}"
  by (simp add: recorded_names_def)

lemma recorded_names_Cons:
  "recorded_names ((k, prev) # us)
   = (if valid_name (c_string k) then insert (c_string k) (recorded_names us) else recorded_names us)"
  by (auto simp: recorded_names_def)

lemma recorded_names_snoc:
  "recorded_names (us @ [(k, prev)])
   = (if valid_name (c_string k) then insert (c_string k) (recorded_names us) else recorded_names us)"
  by (auto simp: recorded_names_def)

lemma inv_init: "activation_inv e (e, [])"
  by (simp add: activation_inv_def recorded_names_Nil)

lemma inv_write:
  assumes inv: "activation_inv e0 (e, us)" and falsy: "\<not> member_truthy (process_env_get e k)"
    and v: "c_string v \<noteq> []"
  shows "activation_inv e0 (setenv e k v, us @ [(k, getenv e k)])"
proof (cases "valid_name (c_string k)")
  case True
  note fr = falsy_read [OF falsy True]
  have notin: "c_string k \<notin> recorded_names us"
    using inv fr(2) by (auto simp: activation_inv_def)
  then have same: "e (c_string k) = e0 (c_string k)"
    using inv by (auto simp: activation_inv_def)
  have prev: "getenv e k = getenv e0 k" "\<not> truthy (getenv e k)"
    using fr same True by (simp_all add: getenv_def)
  show ?thesis
    using inv prev True v notin
    by (auto simp: activation_inv_def recorded_names_snoc setenv_def)
next
  case False
  then have "getenv e k = None" "getenv e0 k = None" "setenv e k v = e"
    by (simp_all add: getenv_def setenv_def)
  with inv False show ?thesis
    by (auto simp: activation_inv_def recorded_names_snoc)
qed

lemma inv_env_table:
  "activation_inv e0 st \<Longrightarrow> list_all (\<lambda>(k, v). v = [] \<or> c_string v \<noteq> []) table \<Longrightarrow>
   activation_inv e0 (apply_env_table table st)"
proof (induction table st rule: apply_env_table.induct)
  case (1 st)
  then show ?case by simp
next
  case (2 envKey envValue rest e us)
  then show ?case by (auto simp: inv_write)
qed

lemma inv_primary:
  "activation_inv e0 st \<Longrightarrow> (case key of None \<Rightarrow> True | Some a \<Rightarrow> a = [] \<or> c_string a \<noteq> []) \<Longrightarrow>
   activation_inv e0 (apply_primary pe key st)"
  by (cases st) (auto simp: apply_primary_def inv_write split: option.splits)

lemma inv_skill:
  "activation_inv e0 st \<Longrightarrow> writes_non_empty sc \<Longrightarrow> activation_inv e0 (apply_skill sc pe st)"
  by (cases sc)
     (auto simp: apply_skill_def writes_non_empty_def intro!: inv_primary inv_env_table
           split: option.splits)

lemma inv_all:
  "activation_inv e0 st \<Longrightarrow> list_all (\<lambda>(sc, pe). writes_non_empty sc) ps \<Longrightarrow>
   activation_inv e0 (apply_all ps st)"
  by (induction ps st rule: apply_all.induct) (auto simp: inv_skill)

lemma revert_restores:
  "(\<And>k prev. (k, prev) \<in> set us \<Longrightarrow> prev = getenv e0 k \<and> \<not> truthy prev) \<Longrightarrow>
   (\<And>n. n \<notin> recorded_names us \<Longrightarrow> e n = e0 n) \<Longrightarrow> revert us e = e0"
proof (induction us arbitrary: e)
  case Nil
  then show ?case by (auto simp: recorded_names_Nil)
next
  case (Cons u us)
  obtain k prev where u: "u = (k, prev)" by (cases u)
  have mem: "(k, prev) \<in> set (u # us)" using u by simp
  have prev: "prev = getenv e0 k" "\<not> truthy prev"
    using Cons.prems(1) [OF mem] by blast+
  let ?e = "case prev of None \<Rightarrow> unsetenv e k | Some v \<Rightarrow> setenv e k v"
  have step: "?e = (if valid_name (c_string k) then e(c_string k := e0 (c_string k)) else e)"
  proof (cases prev)
    case None
    with prev(1) show ?thesis by (auto simp: unsetenv_def getenv_def split: if_splits)
  next
    case (Some v)
    with prev(2) have "v = []" by simp
    with Some prev(1) show ?thesis
      by (auto simp: setenv_def getenv_def c_string_def split: if_splits)
  qed
  have "revert us ?e = e0"
  proof (rule Cons.IH)
    fix k' prev' assume "(k', prev') \<in> set us"
    then have "(k', prev') \<in> set (u # us)" by simp
    then show "prev' = getenv e0 k' \<and> \<not> truthy prev'" by (rule Cons.prems(1))
  next
    fix n assume n: "n \<notin> recorded_names us"
    show "?e n = e0 n"
    proof (cases "valid_name (c_string k) \<and> n = c_string k")
      case True
      then show ?thesis unfolding step by simp
    next
      case False
      then have "n \<notin> recorded_names (u # us)"
        using n u by (auto simp: recorded_names_Cons)
      from Cons.prems(2) [OF this] False show ?thesis unfolding step by auto
    qed
  qed
  then show ?case using u by simp
qed

lemma inv_revert: "activation_inv e0 st \<Longrightarrow> revert (snd st) (fst st) = e0"
  by (rule revert_restores) (auto simp: activation_inv_def)

text \<open>
  Where no value of the per-skill configurations in use begins with NUL, the reversal
  restores the environment.
\<close>

lemma reversal_without_leading_nul:
  assumes "list_all (\<lambda>entry. writes_non_empty
             (resolveSkillConfig cfg (resolveSkillKey (skill entry) entry))) entries"
  shows "revert (snd (applySkillEnvOverrides entries cfg e))
                (fst (applySkillEnvOverrides entries cfg e)) = e"
proof -
  have "list_all (\<lambda>(sc, pe). writes_non_empty sc) (entry_pairs cfg entries)"
    using assms by (simp add: entry_pairs_def list_all_iff)
  then show ?thesis
    by (simp add: applySkillEnvOverrides_def apply_entries_pairs inv_revert inv_all inv_init)
qed

lemmas activation_defs =
  applySkillEnvOverrides_def applySkillEnvOverridesFromSnapshot_def apply_skill_def
  apply_primary_def resolveSkillKey_def resolveSkillConfig_def entry_primaryEnv_def
  buildWorkspaceSkillSnapshot_def filterSkillEntries_def store_defs

text \<open>
  C3, evaluated at a skill \<^verbatim>\<open>tool\<close> with \<^verbatim>\<open>primaryEnv\<close> \<^verbatim>\<open>X\<close> and the configuration
  \<^verbatim>\<open>skills.tool = {apiKey: "k", env: {X: "\u0000abc"}}\<close>, in an environment where \<^verbatim>\<open>X\<close>
  is unset. The override is stored cut at its NUL, as the empty string, so the read before
  the credential is falsy again and \<^verbatim>\<open>X\<close> is recorded twice, first as undefined, then as
  the empty string. The reversal goes through the records in that order: it deletes \<^verbatim>\<open>X\<close>
  and then sets it to the empty string. \<^verbatim>\<open>X\<close> was unset and is left set.
\<close>

theorem reversal_leaves_variable_set:
  "example_env ''X'' = None
   \<and> snd (applySkillEnvOverrides
          [example_named ''tool'' (example_gated None None (Some ''X'') None)]
          (Some (example_config
             [(''tool'', \<lparr>enabled = None, apiKey = Some ''k'',
                           env = Some [(''X'', CHR 0x00 # ''abc'')]\<rparr>)]))
          example_env)
       = [(''X'', None), (''X'', Some [])]
   \<and> fst (applySkillEnvOverrides
          [example_named ''tool'' (example_gated None None (Some ''X'') None)]
          (Some (example_config
             [(''tool'', \<lparr>enabled = None, apiKey = Some ''k'',
                           env = Some [(''X'', CHR 0x00 # ''abc'')]\<rparr>)]))
          example_env) ''X'' = Some ''k''
   \<and> revert
        (snd (applySkillEnvOverrides
          [example_named ''tool'' (example_gated None None (Some ''X'') None)]
          (Some (example_config
             [(''tool'', \<lparr>enabled = None, apiKey = Some ''k'',
                           env = Some [(''X'', CHR 0x00 # ''abc'')]\<rparr>)]))
          example_env))
        (fst (applySkillEnvOverrides
          [example_named ''tool'' (example_gated None None (Some ''X'') None)]
          (Some (example_config
             [(''tool'', \<lparr>enabled = None, apiKey = Some ''k'',
                           env = Some [(''X'', CHR 0x00 # ''abc'')]\<rparr>)]))
          example_env)) ''X'' = Some []"
  by (simp add: example_defs activation_defs)


text \<open>
  C10, as stated, at the variable \<^verbatim>\<open>constructor\<close>: a skill that requires it, with no
  per-skill configuration, is excluded when the variable holds the empty string and is
  included when the variable is unset, so the empty string is not treated as unset there.
\<close>

theorem empty_string_handling_counterexample:
  "getenv (example_env(''constructor'' \<mapsto> [])) ''constructor'' = Some []
   \<and> \<not> shouldIncludeSkill (example_host []) (example_env(''constructor'' \<mapsto> []))
        (example_named ''tool''
           (example_gated None None None
              (Some \<lparr>req_bins = [], req_env = [''constructor''], req_config = []\<rparr>)))
        None
   \<and> getenv example_env ''constructor'' = None
   \<and> shouldIncludeSkill (example_host []) example_env
        (example_named ''tool''
           (example_gated None None None
              (Some \<lparr>req_bins = [], req_env = [''constructor''], req_config = []\<rparr>)))
        None"
  by (simp add: example_defs eligibility_defs)

text \<open>
  C10, amended. In both variants of the activation, the overrides whose value is the empty
  string are never injected: the activation does the same with and without them. A process
  variable \<open>E\<close> whose value is the empty string counts as missing for the environment
  requirements of the eligibility filter: a skill that requires it and is not marked
  \<open>always\<close> is excluded unless its per-skill configuration satisfies the requirement;
  and for a name \<open>E\<close> that no object inherits from \<^verbatim>\<open>Object.prototype\<close> the filter
  decides the same whether \<open>E\<close> holds the empty string or is unset. Such a variable is
  overwritten during activation: when the per-skill configuration of one of the skills
  offers a value for \<open>E\<close>, the updates hold a record for the variable with the empty
  string as its prior value; and an activation of one skill whose configuration has the
  one override, or the credential, for \<open>E\<close> writes it and records the empty string.
\<close>

theorem empty_string_handling:
  "applySkillEnvOverrides entries (without_empty_overrides cfg) e
     = applySkillEnvOverrides entries cfg e
   \<and> applySkillEnvOverridesFromSnapshot snapshot (without_empty_overrides cfg) e
     = applySkillEnvOverridesFromSnapshot snapshot cfg e
   \<and> (getenv e E = Some [] \<and> clawdis entry = Some m \<and> always m \<noteq> Some True
        \<and> requires m = Some r \<and> E \<in> set (req_env r)
        \<and> \<not> member_truthy
              (config_env_value (resolveSkillConfig cfg (resolveSkillKey (skill entry) entry)) E)
        \<and> \<not> (truthy (config_apiKey (resolveSkillConfig cfg (resolveSkillKey (skill entry) entry)))
               \<and> primaryEnv m = Some E)
      \<longrightarrow> \<not> shouldIncludeSkill h e entry cfg)
   \<and> (E \<notin> set object_prototype_names
      \<longrightarrow> shouldIncludeSkill h (e(E \<mapsto> [])) entry cfg = shouldIncludeSkill h (e(E := None)) entry cfg)
   \<and> (getenv e E = Some [] \<and> entry \<in> set entries
        \<and> offers (resolveSkillConfig cfg (resolveSkillKey (skill entry) entry)) (entry_primaryEnv entry) E
      \<longrightarrow> (\<exists>k. c_string k = c_string E
                \<and> (k, Some []) \<in> set (snd (applySkillEnvOverrides entries cfg e))))
   \<and> (getenv e E = Some [] \<and> s \<in> set (snap_skills snap)
        \<and> offers (resolveSkillConfig cfg (snap_name s)) (snap_primaryEnv s) E
      \<longrightarrow> (\<exists>k. c_string k = c_string E
                \<and> (k, Some []) \<in> set (snd (applySkillEnvOverridesFromSnapshot (Some snap) cfg e))))
   \<and> (getenv e E = Some []
        \<and> resolveSkillConfig cfg (resolveSkillKey (skill entry) entry) = Some c
        \<and> env c = Some [(E, v)] \<and> v \<noteq> [] \<and> apiKey c = None
      \<longrightarrow> applySkillEnvOverrides [entry] cfg e = (setenv e E v, [(E, Some [])]))
   \<and> (getenv e E = Some [] \<and> snap_skills snap = [s]
        \<and> resolveSkillConfig cfg (snap_name s) = Some c
        \<and> env c = Some [(E, v)] \<and> v \<noteq> [] \<and> apiKey c = None
      \<longrightarrow> applySkillEnvOverridesFromSnapshot (Some snap) cfg e = (setenv e E v, [(E, Some [])]))
   \<and> (getenv e E = Some []
        \<and> resolveSkillConfig cfg (resolveSkillKey (skill entry) entry) = Some c
        \<and> env c = None \<and> apiKey c = Some a \<and> a \<noteq> [] \<and> entry_primaryEnv entry = Some E \<and> E \<noteq> []
      \<longrightarrow> applySkillEnvOverrides [entry] cfg e = (setenv e E a, [(E, Some [])]))
   \<and> (getenv e E = Some [] \<and> snap_skills snap = [s]
        \<and> resolveSkillConfig cfg (snap_name s) = Some c
        \<and> env c = None \<and> apiKey c = Some a \<and> a \<noteq> [] \<and> snap_primaryEnv s = Some E \<and> E \<noteq> []
      \<longrightarrow> applySkillEnvOverridesFromSnapshot (Some snap) cfg e = (setenv e E a, [(E, Some [])]))"
proof (intro conjI impI)
  show "applySkillEnvOverrides entries (without_empty_overrides cfg) e
     = applySkillEnvOverrides entries cfg e"
    by (rule entries_without_empty)
  show "applySkillEnvOverridesFromSnapshot snapshot (without_empty_overrides cfg) e
     = applySkillEnvOverridesFromSnapshot snapshot cfg e"
    by (rule snapshot_without_empty)
next
  assume "getenv e E = Some [] \<and> clawdis entry = Some m \<and> always m \<noteq> Some True
        \<and> requires m = Some r \<and> E \<in> set (req_env r)
        \<and> \<not> member_truthy
              (config_env_value (resolveSkillConfig cfg (resolveSkillKey (skill entry) entry)) E)
        \<and> \<not> (truthy (config_apiKey (resolveSkillConfig cfg (resolveSkillKey (skill entry) entry)))
               \<and> primaryEnv m = Some E)"
  then show "\<not> shouldIncludeSkill h e entry cfg"
    by (intro empty_counts_as_missing [of e E entry m r cfg h]) blast+
next
  assume "E \<notin> set object_prototype_names"
  then show "shouldIncludeSkill h (e(E \<mapsto> [])) entry cfg = shouldIncludeSkill h (e(E := None)) entry cfg"
    by (rule shouldIncludeSkill_empty_unset)
next
  assume "getenv e E = Some [] \<and> entry \<in> set entries
        \<and> offers (resolveSkillConfig cfg (resolveSkillKey (skill entry) entry)) (entry_primaryEnv entry) E"
  then show "\<exists>k. c_string k = c_string E
                \<and> (k, Some []) \<in> set (snd (applySkillEnvOverrides entries cfg e))"
    by (intro entries_record_empty [of e E entry entries cfg]) blast+
next
  assume "getenv e E = Some [] \<and> s \<in> set (snap_skills snap)
        \<and> offers (resolveSkillConfig cfg (snap_name s)) (snap_primaryEnv s) E"
  then show "\<exists>k. c_string k = c_string E
                \<and> (k, Some []) \<in> set (snd (applySkillEnvOverridesFromSnapshot (Some snap) cfg e))"
    by (intro snapshot_record_empty [of e E s snap cfg]) blast+
next
  assume "getenv e E = Some []
        \<and> resolveSkillConfig cfg (resolveSkillKey (skill entry) entry) = Some c
        \<and> env c = Some [(E, v)] \<and> v \<noteq> [] \<and> apiKey c = None"
  then show "applySkillEnvOverrides [entry] cfg e = (setenv e E v, [(E, Some [])])"
    using single_override [of c E v e "entry_primaryEnv entry"]
    by (simp add: applySkillEnvOverrides_def)
next
  assume "getenv e E = Some [] \<and> snap_skills snap = [s]
        \<and> resolveSkillConfig cfg (snap_name s) = Some c
        \<and> env c = Some [(E, v)] \<and> v \<noteq> [] \<and> apiKey c = None"
  then show "applySkillEnvOverridesFromSnapshot (Some snap) cfg e = (setenv e E v, [(E, Some [])])"
    using single_override [of c E v e "snap_primaryEnv s"]
    by (simp add: applySkillEnvOverridesFromSnapshot_def)
next
  assume "getenv e E = Some []
        \<and> resolveSkillConfig cfg (resolveSkillKey (skill entry) entry) = Some c
        \<and> env c = None \<and> apiKey c = Some a \<and> a \<noteq> [] \<and> entry_primaryEnv entry = Some E \<and> E \<noteq> []"
  then show "applySkillEnvOverrides [entry] cfg e = (setenv e E a, [(E, Some [])])"
    using single_credential [of c a E e]
    by (simp add: applySkillEnvOverrides_def)
next
  assume "getenv e E = Some [] \<and> snap_skills snap = [s]
        \<and> resolveSkillConfig cfg (snap_name s) = Some c
        \<and> env c = None \<and> apiKey c = Some a \<and> a \<noteq> [] \<and> snap_primaryEnv s = Some E \<and> E \<noteq> []"
  then show "applySkillEnvOverridesFromSnapshot (Some snap) cfg e = (setenv e E a, [(E, Some [])])"
    using single_credential [of c a E e]
    by (simp add: applySkillEnvOverridesFromSnapshot_def)
qed

theorem empty_string_handling_witness:
  "getenv example_env_empty ''TOKEN'' = Some []
   \<and> applySkillEnvOverrides
          [example_named ''tool'' (example_gated None None None None)]
          (Some (example_config
             [(''tool'', \<lparr>enabled = None, apiKey = None, env = Some [(''TOKEN'', ''abc'')]\<rparr>)]))
          example_env_empty
       = (setenv example_env_empty ''TOKEN'' ''abc'', [(''TOKEN'', Some [])])
   \<and> applySkillEnvOverridesFromSnapshot
          (Some \<lparr>prompt = [], snap_skills = [\<lparr>snap_name = ''tool'', snap_primaryEnv = None\<rparr>]\<rparr>)
          (Some (example_config
             [(''tool'', \<lparr>enabled = None, apiKey = None, env = Some [(''TOKEN'', ''abc'')]\<rparr>)]))
          example_env_empty
       = (setenv example_env_empty ''TOKEN'' ''abc'', [(''TOKEN'', Some [])])
   \<and> setenv example_env_empty ''TOKEN'' ''abc'' ''TOKEN'' = Some ''abc''
   \<and> applySkillEnvOverrides
          [example_named ''tool'' (example_gated None None (Some ''TOKEN'') None)]
          (Some (example_config
             [(''tool'', \<lparr>enabled = None, apiKey = Some ''secret'', env = None\<rparr>)]))
          example_env_empty
       = (setenv example_env_empty ''TOKEN'' ''secret'', [(''TOKEN'', Some [])])
   \<and> applySkillEnvOverridesFromSnapshot
          (Some \<lparr>prompt = [],
                  snap_skills = [\<lparr>snap_name = ''tool'', snap_primaryEnv = Some ''TOKEN''\<rparr>]\<rparr>)
          (Some (example_config
             [(''tool'', \<lparr>enabled = None, apiKey = Some ''secret'', env = None\<rparr>)]))
          example_env_empty
       = (setenv example_env_empty ''TOKEN'' ''secret'', [(''TOKEN'', Some [])])
   \<and> applySkillEnvOverrides
          [example_named ''tool'' (example_gated None None None None)]
          (Some (example_config
             [(''tool'', \<lparr>enabled = None, apiKey = None, env = Some [(''EMPTY'', [])]\<rparr>)]))
          example_env_empty
       = (example_env_empty, [])
   \<and> \<not> shouldIncludeSkill (example_host []) example_env_empty
          (example_named ''tool'' (example_gated None None None
             (Some \<lparr>req_bins = [], req_env = [''TOKEN''], req_config = []\<rparr>))) None
   \<and> \<not> shouldIncludeSkill (example_host []) (example_env(''TOKEN'' := None))
          (example_named ''tool'' (example_gated None None None
             (Some \<lparr>req_bins = [], req_env = [''TOKEN''], req_config = []\<rparr>))) None"
  using
    empty_string_handling [where entries = "[example_named ''tool'' (example_gated None None None None)]"
      and cfg = "Some (example_config
             [(''tool'', \<lparr>enabled = None, apiKey = None, env = Some [(''TOKEN'', ''abc'')]\<rparr>)])"
      and e = example_env_empty
      and snapshot = "Some \<lparr>prompt = [], snap_skills = [\<lparr>snap_name = ''tool'', snap_primaryEnv = None\<rparr>]\<rparr>"
      and snap = "\<lparr>prompt = [], snap_skills = [\<lparr>snap_name = ''tool'', snap_primaryEnv = None\<rparr>]\<rparr>"
      and s = "\<lparr>snap_name = ''tool'', snap_primaryEnv = None\<rparr>"
      and E = "''TOKEN''" and v = "''abc''"
      and c = "\<lparr>enabled = None, apiKey = None, env = Some [(''TOKEN'', ''abc'')]\<rparr>"
      and entry = "example_named ''tool'' (example_gated None None None None)"
      and h = "example_host []"]
    empty_string_handling [where entries = "[example_named ''tool'' (example_gated None None None None)]"
      and cfg = "Some (example_config
             [(''tool'', \<lparr>enabled = None, apiKey = None, env = Some [(''EMPTY'', [])]\<rparr>)])"
      and e = example_env_empty and snapshot = None]
    empty_string_handling [where cfg = "Some (example_config
             [(''tool'', \<lparr>enabled = None, apiKey = Some ''secret'', env = None\<rparr>)])"
      and e = example_env_empty and E = "''TOKEN''" and a = "''secret''"
      and c = "\<lparr>enabled = None, apiKey = Some ''secret'', env = None\<rparr>"
      and entry = "example_named ''tool'' (example_gated None None (Some ''TOKEN'') None)"
      and snap = "\<lparr>prompt = [],
                  snap_skills = [\<lparr>snap_name = ''tool'', snap_primaryEnv = Some ''TOKEN''\<rparr>]\<rparr>"
      and s = "\<lparr>snap_name = ''tool'', snap_primaryEnv = Some ''TOKEN''\<rparr>"]
    empty_string_handling [where cfg = None and e = example_env_empty and E = "''TOKEN''"
      and entry = "example_named ''tool'' (example_gated None None None
             (Some \<lparr>req_bins = [], req_env = [''TOKEN''], req_config = []\<rparr>))"
      and m = "example_gated None None None
             (Some \<lparr>req_bins = [], req_env = [''TOKEN''], req_config = []\<rparr>)"
      and r = "\<lparr>req_bins = [], req_env = [''TOKEN''], req_config = []\<rparr>"
      and h = "example_host []"]
    empty_string_handling [where cfg = None and e = example_env and E = "''TOKEN''"
      and entry = "example_named ''tool'' (example_gated None None None
             (Some \<lparr>req_bins = [], req_env = [''TOKEN''], req_config = []\<rparr>))"
      and h = "example_host []"]
  by (simp add: example_defs activation_defs eligibility_defs without_empty_overrides_def
        drop_empty_overrides_def hasBinary_def)


text \<open>
  C8, evaluated at a skill named \<^verbatim>\<open>tool\<close> whose metadata sets \<^verbatim>\<open>skillKey\<close> to
  \<^verbatim>\<open>shared\<close>, with \<^verbatim>\<open>primaryEnv\<close> \<^verbatim>\<open>API_KEY\<close>, a requirement on \<^verbatim>\<open>API_KEY\<close>, and the
  configuration \<^verbatim>\<open>skills.shared.apiKey = "secret"\<close>. The skill is eligible, through the
  configuration found under its \<open>skillKey\<close>, and the snapshot lists it.
  \<open>applySkillEnvOverrides\<close> on the eligible entries writes \<^verbatim>\<open>API_KEY\<close>;
  \<open>applySkillEnvOverridesFromSnapshot\<close> on the snapshot looks the configuration up under
  the name \<^verbatim>\<open>tool\<close>, finds none and writes nothing.
\<close>

theorem snapshot_activation_ignores_skillKey:
  "filterSkillEntries (example_host []) example_env
       [example_named ''tool'' (example_gated None (Some ''shared'') (Some ''API_KEY'')
           (Some \<lparr>req_bins = [], req_env = [''API_KEY''], req_config = []\<rparr>))]
       (Some (example_config [(''shared'', \<lparr>enabled = None, apiKey = Some ''secret'', env = None\<rparr>)]))
     = [example_named ''tool'' (example_gated None (Some ''shared'') (Some ''API_KEY'')
           (Some \<lparr>req_bins = [], req_env = [''API_KEY''], req_config = []\<rparr>))]
   \<and> snap_skills (buildWorkspaceSkillSnapshot (\<lambda>ss. []) (example_host []) example_env
       [example_named ''tool'' (example_gated None (Some ''shared'') (Some ''API_KEY'')
           (Some \<lparr>req_bins = [], req_env = [''API_KEY''], req_config = []\<rparr>))]
       (Some (example_config [(''shared'', \<lparr>enabled = None, apiKey = Some ''secret'', env = None\<rparr>)])))
     = [\<lparr>snap_name = ''tool'', snap_primaryEnv = Some ''API_KEY''\<rparr>]
   \<and> fst (applySkillEnvOverrides
       [example_named ''tool'' (example_gated None (Some ''shared'') (Some ''API_KEY'')
           (Some \<lparr>req_bins = [], req_env = [''API_KEY''], req_config = []\<rparr>))]
       (Some (example_config [(''shared'', \<lparr>enabled = None, apiKey = Some ''secret'', env = None\<rparr>)]))
       example_env) ''API_KEY'' = Some ''secret''
   \<and> snd (applySkillEnvOverrides
       [example_named ''tool'' (example_gated None (Some ''shared'') (Some ''API_KEY'')
           (Some \<lparr>req_bins = [], req_env = [''API_KEY''], req_config = []\<rparr>))]
       (Some (example_config [(''shared'', \<lparr>enabled = None, apiKey = Some ''secret'', env = None\<rparr>)]))
       example_env) = [(''API_KEY'', None)]
   \<and> applySkillEnvOverridesFromSnapshot
       (Some (buildWorkspaceSkillSnapshot (\<lambda>ss. []) (example_host []) example_env
          [example_named ''tool'' (example_gated None (Some ''shared'') (Some ''API_KEY'')
              (Some \<lparr>req_bins = [], req_env = [''API_KEY''], req_config = []\<rparr>))]
          (Some (example_config [(''shared'', \<lparr>enabled = None, apiKey = Some ''secret'', env = None\<rparr>)]))))
       (Some (example_config [(''shared'', \<lparr>enabled = None, apiKey = Some ''secret'', env = None\<rparr>)]))
       example_env = (example_env, [])"
  by (simp add: example_defs activation_defs eligibility_defs hasBinary_def)

text \<open>
  Where no entry overrides its configuration key, the two variants do the same.
\<close>

lemma snapshot_agrees_without_skillKey:
  assumes "\<And>entry. entry \<in> set entries \<Longrightarrow> resolveSkillKey (skill entry) entry = name (skill entry)"
  shows "applySkillEnvOverridesFromSnapshot
           (Some (buildWorkspaceSkillSnapshot fmt h e0 entries cfg)) cfg e
         = applySkillEnvOverrides (filterSkillEntries h e0 entries cfg) cfg e"
proof -
  have "snapshot_pairs cfg
          (map (\<lambda>entry. \<lparr>snap_name = name (skill entry), snap_primaryEnv = entry_primaryEnv entry\<rparr>)
               (filterSkillEntries h e0 entries cfg))
        = entry_pairs cfg (filterSkillEntries h e0 entries cfg)"
    using assms by (auto simp: snapshot_pairs_def entry_pairs_def filterSkillEntries_def)
  then show ?thesis
    by (simp add: applySkillEnvOverridesFromSnapshot_def applySkillEnvOverrides_def
          buildWorkspaceSkillSnapshot_def Let_def apply_snapshot_pairs apply_entries_pairs)
qed

section \<open>Metadata parser: properties\<close>











































section \<open>Source merger: properties\<close>

lemma map_of_map_set: "map_of (map_set m k v) = (map_of m)(k \<mapsto> v)"
  by (induction m) (auto simp: fun_eq_iff)

lemma keys_map_set:
  "map fst (map_set m k v) = (if k \<in> fst ` set m then map fst m else map fst m @ [k])"
proof (induction m)
  case Nil
  then show ?case by simp
next
  case (Cons p m)
  obtain k' v' where p: "p = (k', v')" by (cases p)
  show ?case
  proof (cases "k' = k")
    case True
    with p show ?thesis by simp
  next
    case False
    with p Cons show ?thesis by (cases "k \<in> fst ` set m") simp_all
  qed
qed

lemma distinct_map_set: "distinct (map fst m) \<Longrightarrow> distinct (map fst (map_set m k v))"
  by (simp add: keys_map_set)

lemma set_keys_map_set: "fst ` set (map_set m k v) = insert k (fst ` set m)"
proof -
  have "set (map fst (map_set m k v)) = insert k (set (map fst m))"
    unfolding keys_map_set by auto
  then show ?thesis by simp
qed

lemma set_map_set: "set (map_set m k v) \<subseteq> insert (k, v) (set m)"
  by (induction m) (auto split: if_splits)

lemma named_map_set:
  assumes "\<And>k' v'. (k', v') \<in> set m \<Longrightarrow> name v' = k'"
    and "(k', v') \<in> set (map_set m (name s) s)"
  shows "name v' = k'"
proof -
  from assms(2) set_map_set [of m "name s" s]
  have "(k', v') = (name s, s) \<or> (k', v') \<in> set m" by auto
  then show ?thesis using assms(1) by auto
qed

lemma set_all_Nil: "set_all m [] = m"
  by (simp add: set_all_def)

lemma set_all_Cons: "set_all m (s # ss) = set_all (map_set m (name s) s) ss"
  by (simp add: set_all_def)

lemma last_named_Nil: "last_named n [] = None"
  by (simp add: last_named_def)

lemma last_named_Cons:
  "last_named n (s # ss) =
     (case last_named n ss of Some t \<Rightarrow> Some t | None \<Rightarrow> if name s = n then Some s else None)"
  by (auto simp: last_named_def split: list.splits)

lemma map_of_set_all:
  "map_of (set_all m ss) n = (case last_named n ss of Some s \<Rightarrow> Some s | None \<Rightarrow> map_of m n)"
proof (induction ss arbitrary: m)
  case Nil
  then show ?case by (simp add: set_all_Nil last_named_Nil)
next
  case (Cons s ss)
  show ?case
    unfolding set_all_Cons Cons.IH last_named_Cons
    by (simp add: map_of_map_set split: option.splits)
qed

lemma distinct_set_all: "distinct (map fst m) \<Longrightarrow> distinct (map fst (set_all m ss))"
  by (induction ss arbitrary: m) (simp_all add: set_all_Nil set_all_Cons distinct_map_set)

lemma set_keys_set_all: "fst ` set (set_all m ss) = fst ` set m \<union> name ` set ss"
  by (induction ss arbitrary: m) (auto simp: set_all_Nil set_all_Cons set_keys_map_set)

lemma named_set_all:
  "(\<And>k v. (k, v) \<in> set m \<Longrightarrow> name v = k) \<Longrightarrow> (k, v) \<in> set (set_all m ss) \<Longrightarrow> name v = k"
proof (induction ss arbitrary: m)
  case Nil
  then show ?case by (simp add: set_all_Nil)
next
  case (Cons s ss)
  show ?case
  proof (rule Cons.IH [of "map_set m (name s) s"])
    fix k' v' assume "(k', v') \<in> set (map_set m (name s) s)"
    then show "name v' = k'"
      using named_map_set [of m k' v' s] Cons.prems(1) by blast
  next
    show "(k, v) \<in> set (set_all (map_set m (name s) s) ss)"
      using Cons.prems(2) by (simp add: set_all_Cons)
  qed
qed

lemma map_of_merge_sources:
  "map_of (merge_sources ex bu ma ws) n = precedence_winner ex bu ma ws n"
  by (simp add: merge_sources_def precedence_winner_def map_of_set_all set_all_Nil
           split: option.splits)

lemma distinct_merge_sources: "distinct (map fst (merge_sources ex bu ma ws))"
  by (simp add: merge_sources_def distinct_set_all)

lemma set_keys_merge_sources:
  "fst ` set (merge_sources ex bu ma ws) = name ` (set ex \<union> set bu \<union> set ma \<union> set ws)"
  by (auto simp: merge_sources_def set_keys_set_all)

lemma named_merge_sources:
  assumes "(k, v) \<in> set (merge_sources ex bu ma ws)"
  shows "name v = k"
proof -
  have 1: "name v' = k'" if "(k', v') \<in> set (set_all [] ex)" for k' v'
    using that by (rule named_set_all [rotated]) simp
  have 2: "name v' = k'" if "(k', v') \<in> set (set_all (set_all [] ex) bu)" for k' v'
    using that by (rule named_set_all [rotated]) (rule 1)
  have 3: "name v' = k'" if "(k', v') \<in> set (set_all (set_all (set_all [] ex) bu) ma)" for k' v'
    using that by (rule named_set_all [rotated]) (rule 2)
  show ?thesis
    using assms unfolding merge_sources_def by (rule named_set_all [rotated]) (rule 3)
qed

lemma names_merge_sources:
  "map (\<lambda>p. name (snd p)) (merge_sources ex bu ma ws) = map fst (merge_sources ex bu ma ws)"
  by (rule map_cong) (auto dest: named_merge_sources)

lemma skills_loadSkillEntries:
  "map skill (loadSkillEntries h dec ex bu ma ws) = map snd (merge_sources ex bu ma ws)"
  by (simp add: loadSkillEntries_def Let_def comp_def)

text \<open>
  C1. Whatever the four lists of skills, names overlapping or not, the entries of
  \<open>loadSkillEntries\<close> carry pairwise distinct names, the names are exactly those that
  occur in one of the four lists, and the skill record of each entry is, whole, the record
  of the highest-ranked source that defines its name: workspace over managed over bundled
  over extra.
\<close>

theorem merge_precedence:
  "distinct (map (\<lambda>en. name (skill en)) (loadSkillEntries h dec ex bu ma ws))
   \<and> set (map (\<lambda>en. name (skill en)) (loadSkillEntries h dec ex bu ma ws))
       = name ` (set ex \<union> set bu \<union> set ma \<union> set ws)
   \<and> (\<forall>en \<in> set (loadSkillEntries h dec ex bu ma ws).
         precedence_winner ex bu ma ws (name (skill en)) = Some (skill en))"
proof -
  let ?m = "merge_sources ex bu ma ws"
  have names: "map (\<lambda>en. name (skill en)) (loadSkillEntries h dec ex bu ma ws) = map fst ?m"
  proof -
    have "map (\<lambda>en. name (skill en)) (loadSkillEntries h dec ex bu ma ws)
          = map name (map skill (loadSkillEntries h dec ex bu ma ws))"
      by (simp add: comp_def)
    also have "\<dots> = map (\<lambda>p. name (snd p)) ?m"
      unfolding skills_loadSkillEntries by (simp add: comp_def)
    finally show ?thesis by (simp add: names_merge_sources)
  qed
  have win: "precedence_winner ex bu ma ws (name (skill en)) = Some (skill en)"
    if "en \<in> set (loadSkillEntries h dec ex bu ma ws)" for en
  proof -
    from that have "skill en \<in> set (map skill (loadSkillEntries h dec ex bu ma ws))" by simp
    then obtain k where kv: "(k, skill en) \<in> set ?m"
      unfolding skills_loadSkillEntries by auto
    then have "name (skill en) = k" by (rule named_merge_sources)
    moreover from kv have "map_of ?m k = Some (skill en)"
      using distinct_merge_sources by simp
    ultimately show ?thesis by (simp add: map_of_merge_sources)
  qed
  have "set (map fst ?m) = name ` (set ex \<union> set bu \<union> set ma \<union> set ws)"
    using set_keys_merge_sources [of ex bu ma ws] by simp
  then show ?thesis
    using win unfolding names by (simp add: distinct_merge_sources)
qed



theorem merge_precedence_witness:
  "map skill (loadSkillEntries (example_host []) (\<lambda>fm. None)
       [example_source_skill ''clawdis-extra'' ''a'', example_source_skill ''clawdis-extra'' ''b'']
       [example_source_skill ''clawdis-bundled'' ''a'', example_source_skill ''clawdis-bundled'' ''c'']
       [example_source_skill ''clawdis-managed'' ''c'']
       [example_source_skill ''clawdis-workspace'' ''a''])
     = [example_source_skill ''clawdis-workspace'' ''a'', example_source_skill ''clawdis-extra'' ''b'',
        example_source_skill ''clawdis-managed'' ''c'']
   \<and> precedence_winner
       [example_source_skill ''clawdis-extra'' ''a'', example_source_skill ''clawdis-extra'' ''b'']
       [example_source_skill ''clawdis-bundled'' ''a'', example_source_skill ''clawdis-bundled'' ''c'']
       [example_source_skill ''clawdis-managed'' ''c'']
       [example_source_skill ''clawdis-workspace'' ''a''] ''c''
     = Some (example_source_skill ''clawdis-managed'' ''c'')"
  using merge_precedence [of "example_host []" "\<lambda>fm. None"
       "[example_source_skill ''clawdis-extra'' ''a'', example_source_skill ''clawdis-extra'' ''b'']"
       "[example_source_skill ''clawdis-bundled'' ''a'', example_source_skill ''clawdis-bundled'' ''c'']"
       "[example_source_skill ''clawdis-managed'' ''c'']"
       "[example_source_skill ''clawdis-workspace'' ''a'']"]
  by (simp add: loadSkillEntries_def merge_sources_def set_all_def example_source_skill_def
        example_host_def precedence_winner_def last_named_def)

end
